theory Spec2Isabelle
  imports Main "HOL-Library.Word"
begin

unbundle bit_operations_syntax

section \<open>ip2unix: the per-descriptor shadow state of \<^verbatim>\<open>src/socket.cc\<close>\<close>

text \<open>
  The theory embeds the methods of class \<^verbatim>\<open>Socket\<close> (\<^verbatim>\<open>src/socket.cc\<close>) as
  functions that pass the object and the process-wide state explicitly.  The classes
  \<^verbatim>\<open>SockAddr\<close>, the port allocator, the socket-option cache and \<^verbatim>\<open>BlackHole\<close> are used by
  \<^verbatim>\<open>socket.cc\<close> but their sources are not part of \<^verbatim>\<open>src/\<close>; the definitions that stand
  for them say so and follow the specification.
\<close>

subsection \<open>Platform constants\<close>

text \<open>Values of the Linux headers.\<close>

definition AF_UNIX :: int where "AF_UNIX = 1"
definition AF_INET :: int where "AF_INET = 2"
definition AF_INET6 :: int where "AF_INET6 = 10"
definition SOCK_STREAM :: int where "SOCK_STREAM = 1"
definition SOCK_DGRAM :: int where "SOCK_DGRAM = 2"
definition EFAULT :: int where "EFAULT = 14"
definition EADDRNOTAVAIL :: int where "EADDRNOTAVAIL = 99"

subsection \<open>Addresses\<close>

text \<open>Peer credentials as \<^verbatim>\<open>SO_PEERCRED\<close> reports them (\<^verbatim>\<open>struct ucred\<close>).\<close>

record ucred =
  pid :: "32 word"
  uid :: "32 word"
  gid :: "32 word"

text \<open>
  Modelled from the spec: class \<^verbatim>\<open>SockAddr\<close> (\<^verbatim>\<open>sockaddr.hh\<close>, \<^verbatim>\<open>sockaddr.cc\<close>) is missing
  from \<^verbatim>\<open>src/\<close>.  The spec describes it as a tagged union over IPv4, IPv6 and UNIX that
  carries the family, the host bytes, the port (for IP) and the filesystem path (for
  UNIX).  \<open>Unspec d\<close> is a zeroed address whose family field holds a value \<open>d\<close> that is
  none of the three.
\<close>

datatype SockAddr =
    IPv4 "32 word" "16 word"
  | IPv6 "128 word" "16 word"
  | UNIX string
  | Unspec int

fun ss_family :: "SockAddr \<Rightarrow> int" where
  "ss_family (IPv4 h p) = AF_INET"
| "ss_family (IPv6 h p) = AF_INET6"
| "ss_family (UNIX path) = AF_UNIX"
| "ss_family (Unspec d) = d"

text \<open>
  Modelled from the spec: \<^verbatim>\<open>SockAddr a; a.ss_family = d;\<close> as \<^verbatim>\<open>socket.cc\<close> writes it, a
  default-constructed (zeroed) address whose family is then set to \<open>d\<close>.
\<close>

definition with_family :: "int \<Rightarrow> SockAddr" where
  "with_family d =
     (if d = AF_INET then IPv4 0 0
      else if d = AF_INET6 then IPv6 0 0
      else if d = AF_UNIX then UNIX []
      else Unspec d)"

text \<open>Modelled from the spec: \<^verbatim>\<open>SockAddr::copy\<close>, a copy by value.\<close>

definition copy :: "SockAddr \<Rightarrow> SockAddr" where
  "copy a = a"

text \<open>
  Modelled from the spec: \<^verbatim>\<open>SockAddr::get_port\<close>, the port of an IP address and nothing
  for any other family.  Port 0 is a port like any other here: \<^verbatim>\<open>Socket::bind\<close> tests
  \<^verbatim>\<open>port && port.value() == 0\<close>.
\<close>

fun get_port :: "SockAddr \<Rightarrow> 16 word option" where
  "get_port (IPv4 h p) = Some p"
| "get_port (IPv6 h p) = Some p"
| "get_port a = None"

text \<open>
  Modelled from the spec: \<^verbatim>\<open>SockAddr::set_port\<close>; it reports whether the address has a
  port to set.
\<close>

fun set_port :: "16 word \<Rightarrow> SockAddr \<Rightarrow> bool \<times> SockAddr" where
  "set_port q (IPv4 h p) = (True, IPv4 h q)"
| "set_port q (IPv6 h p) = (True, IPv6 h q)"
| "set_port q a = (False, a)"

text \<open>Modelled from the spec: \<^verbatim>\<open>SockAddr::get_sockpath\<close>, the path of a UNIX address.\<close>

fun get_sockpath :: "SockAddr \<Rightarrow> string option" where
  "get_sockpath (UNIX path) = Some path"
| "get_sockpath a = None"

text \<open>
  Modelled from the spec: \<^verbatim>\<open>SockAddr::unix\<close> fails if the path length exceeds the
  platform limit; on Linux \<^verbatim>\<open>sun_path\<close> has 108 bytes, one of them the terminating NUL.
\<close>

definition sun_path_max :: nat where "sun_path_max = 107"

definition unix :: "string \<Rightarrow> SockAddr option" where
  "unix path = (if length path > sun_path_max then None else Some (UNIX path))"

text \<open>
  Modelled from the spec: \<^verbatim>\<open>SockAddr::is_loopback\<close> holds iff the host is in 127.0.0.0/8
  or is ::1.
\<close>

fun is_loopback :: "SockAddr \<Rightarrow> bool" where
  "is_loopback (IPv4 h p) = (drop_bit 24 h = 127)"
| "is_loopback (IPv6 h p) = (h = 1)"
| "is_loopback a = False"

text \<open>
  Modelled from the spec: \<^verbatim>\<open>SockAddr::set_host(const SockAddr &)\<close>, called with a loopback
  template, yields a loopback address of the same family: the host of the template is
  taken over when the families agree, and the call fails otherwise.
\<close>

fun set_host :: "SockAddr \<Rightarrow> SockAddr \<Rightarrow> bool \<times> SockAddr" where
  "set_host (IPv4 h' p') (IPv4 h p) = (True, IPv4 h' p)"
| "set_host (IPv6 h' p') (IPv6 h p) = (True, IPv6 h' p)"
| "set_host other a = (False, a)"

text \<open>
  Modelled from the spec: \<^verbatim>\<open>SockAddr::set_host(const ucred &)\<close> derives the host from
  (uid, gid, pid), deterministically.  For IPv6 the tuple fills the low 96 bits under a
  zero prefix.  For IPv4 the spec leaves the packing into 32 bits to the implementation,
  so it is the parameter \<open>pack4\<close>.
\<close>

definition cred_host6 :: "ucred \<Rightarrow> 128 word" where
  "cred_host6 c = push_bit 64 (ucast (uid c)) OR push_bit 32 (ucast (gid c)) OR ucast (pid c)"

fun set_host_cred :: "(ucred \<Rightarrow> 32 word) \<Rightarrow> ucred \<Rightarrow> SockAddr \<Rightarrow> bool \<times> SockAddr" where
  "set_host_cred pack4 c (IPv4 h p) = (True, IPv4 (pack4 c) p)"
| "set_host_cred pack4 c (IPv6 h p) = (True, IPv6 (cred_host6 c) p)"
| "set_host_cred pack4 c a = (False, a)"

text \<open>
  Modelled from the spec: \<^verbatim>\<open>SockAddr::set_random_host\<close> yields a fresh host; the random
  bits drawn are the arguments \<open>r4\<close> and \<open>r6\<close>.
\<close>

fun set_random_host :: "32 word \<Rightarrow> 128 word \<Rightarrow> SockAddr \<Rightarrow> bool \<times> SockAddr" where
  "set_random_host r4 r6 (IPv4 h p) = (True, IPv4 r4 p)"
| "set_random_host r4 r6 (IPv6 h p) = (True, IPv6 r6 p)"
| "set_random_host r4 r6 a = (False, a)"

text \<open>
  Modelled from the spec: the host string and the port string of \<^verbatim>\<open>SockAddr\<close> are written
  with decimal and hexadecimal numerals.
\<close>

definition digit :: "nat \<Rightarrow> char" where
  "digit d = ''0123456789abcdef'' ! d"

fun decimal :: "nat \<Rightarrow> string" where
  "decimal n =
     (if n < 10 then [digit n]
      else decimal (n div 10) @ [digit (n mod 10)])"

declare decimal.simps [simp del]

fun hexadecimal :: "nat \<Rightarrow> string" where
  "hexadecimal n =
     (if n < 16 then [digit n]
      else hexadecimal (n div 16) @ [digit (n mod 16)])"

declare hexadecimal.simps [simp del]

text \<open>
  Modelled from the spec: \<^verbatim>\<open>SockAddr::get_host\<close>, the host string of an IP address:
  dotted decimal for IPv4, and for IPv6 the eight 16-bit groups in hexadecimal (the
  abbreviation of runs of zero groups is not modelled).
\<close>

definition octet :: "32 word \<Rightarrow> nat \<Rightarrow> string" where
  "octet h i = decimal (unat (drop_bit (8 * i) h AND 255))"

definition group6 :: "128 word \<Rightarrow> nat \<Rightarrow> string" where
  "group6 h i = hexadecimal (unat (drop_bit (16 * i) h AND 65535))"

fun get_host :: "SockAddr \<Rightarrow> string option" where
  "get_host (IPv4 h p) =
     Some (octet h 3 @ ''.'' @ octet h 2 @ ''.'' @ octet h 1 @ ''.'' @ octet h 0)"
| "get_host (IPv6 h p) =
     Some (group6 h 7 @ '':'' @ group6 h 6 @ '':'' @ group6 h 5 @ '':'' @ group6 h 4 @ '':'' @
           group6 h 3 @ '':'' @ group6 h 2 @ '':'' @ group6 h 1 @ '':'' @ group6 h 0)"
| "get_host a = None"

text \<open>Modelled from the spec: \<^verbatim>\<open>SockAddr::get_port_str\<close>, the port in decimal.\<close>

definition get_port_str :: "SockAddr \<Rightarrow> string option" where
  "get_port_str a = map_option (\<lambda>p. decimal (unat p)) (get_port a)"

text \<open>\<^verbatim>\<open>std::optional::value_or\<close>.\<close>

definition value_or :: "'a option \<Rightarrow> 'a \<Rightarrow> 'a" where
  "value_or x d = (case x of None \<Rightarrow> d | Some v \<Rightarrow> v)"

subsection \<open>The ephemeral port allocator\<close>

text \<open>
  Modelled from the spec: the per-socket port allocator (\<^verbatim>\<open>Socket::ports\<close>) is missing
  from \<^verbatim>\<open>src/\<close>.  It is a pool over the ephemeral range 32768..60999; \<open>acquire\<close> returns a
  port that is not marked reserved and marks it, \<open>reserve\<close> marks a given port, \<open>release\<close>
  unmarks it.  Which free port \<open>acquire\<close> hands out is left open by the spec: the model
  takes the lowest one.  On exhaustion it returns 0, a value outside the range.
\<close>

type_synonym PortPool = "16 word set"

definition port_lo :: nat where "port_lo = 32768"
definition port_hi :: nat where "port_hi = 60999"

function first_free :: "PortPool \<Rightarrow> nat \<Rightarrow> nat option" where
  "first_free r n =
     (if port_hi < n then None
      else if word_of_nat n \<notin> r then Some n
      else first_free r (Suc n))"
  by pat_completeness auto
termination
  by (relation "measure (\<lambda>(r, n). Suc port_hi - n)") auto

declare first_free.simps [simp del]

definition acquire :: "PortPool \<Rightarrow> 16 word \<times> PortPool" where
  "acquire r =
     (case first_free r port_lo of
        None \<Rightarrow> (0, r)
      | Some n \<Rightarrow> (word_of_nat n, insert (word_of_nat n) r))"

definition reserve :: "16 word \<Rightarrow> PortPool \<Rightarrow> PortPool" where
  "reserve q r = insert q r"

definition release :: "16 word \<Rightarrow> PortPool \<Rightarrow> PortPool" where
  "release q r = r - {q}"

subsection \<open>The Socket object and the process-wide state\<close>

datatype SocketType = TCP | UDP | INVALID

text \<open>
  Modelled from the spec: the socket-option cache (\<^verbatim>\<open>Socket::sockopts\<close>) is missing from
  \<^verbatim>\<open>src/\<close>.  It records the arguments of the successful \<^verbatim>\<open>setsockopt\<close> and \<^verbatim>\<open>ioctl\<close> calls
  in the order they were made.
\<close>

datatype cached =
    Cached_sockopt int int "8 word list"
  | Cached_ioctl nat "8 word list"

definition cache_sockopt :: "int \<Rightarrow> int \<Rightarrow> 8 word list \<Rightarrow> cached list \<Rightarrow> cached list" where
  "cache_sockopt level optname optval cs = cs @ [Cached_sockopt level optname optval]"

definition cache_ioctl :: "nat \<Rightarrow> 8 word list \<Rightarrow> cached list \<Rightarrow> cached list" where
  "cache_ioctl request arg cs = cs @ [Cached_ioctl request arg]"

text \<open>
  The fields of class \<^verbatim>\<open>Socket\<close>.  \<open>blackhole_ref\<close> holds the path of the blackhole the
  socket keeps alive.
\<close>

record Socket =
  type :: SocketType
  fd :: int
  domain :: int
  typearg :: int
  protocol :: int
  is_unix :: bool
  is_blackhole :: bool
  activated :: bool
  bound :: bool
  binding :: "SockAddr option"
  connection :: "SockAddr option"
  sockpath :: "string option"
  sockopts :: "cached list"
  ports :: PortPool
  peermap :: "SockAddr \<rightharpoonup> string"
  revpeermap :: "string \<rightharpoonup> SockAddr"
  blackhole_ref :: "string option"

text \<open>The calls that leave the process, in the order they are made.\<close>

datatype call =
    Sys_socket int int int
  | Sys_replay int int
  | Sys_dup2 int int
  | Sys_close int
  | Sys_bind int SockAddr
  | Sys_connect int SockAddr
  | Sys_listen int int
  | Sys_setsockopt int int int "8 word list"
  | Sys_ioctl int nat "8 word list"
  | Sys_unlink string
  | Sys_peercred int

text \<open>
  The process-wide state: the two static registries of class \<^verbatim>\<open>Socket\<close>, \<^verbatim>\<open>errno\<close>, and
  the calls made so far.  \<^verbatim>\<open>Socket::registry\<close> holds shared pointers; the model keeps
  under each descriptor the object as it was registered, and the object a method runs
  on is passed to the method and returned by it.
\<close>

record process =
  registry :: "int \<rightharpoonup> Socket"
  sockpath_registry :: "string set"
  errno :: int
  calls :: "call list"

text \<open>
  What lies outside the program during one method call.  A system call answers with its
  return value and the \<^verbatim>\<open>errno\<close> it leaves.  No method makes the same call twice, so one
  answer per call suffices.  \<open>k_replay\<close> is the verdict of replaying the option cache on
  the new descriptor, \<open>k_peercred\<close> the answer of \<^verbatim>\<open>getsockopt(SO_PEERCRED)\<close>, \<open>k_self\<close> what
  \<^verbatim>\<open>getuid\<close>, \<^verbatim>\<open>getgid\<close> and \<^verbatim>\<open>getpid\<close> return, \<open>k_blackhole\<close> the path a new \<^verbatim>\<open>BlackHole\<close>
  offers (none if it could not be created), \<open>k_random4\<close> and \<open>k_random6\<close> the random host
  bits, and \<open>k_pack4\<close> the packing of credentials into an IPv4 host.
\<close>

type_synonym sysret = "int \<times> int"

record kernel =
  k_socket :: sysret
  k_replay :: "bool \<times> int"
  k_dup2 :: sysret
  k_close :: sysret
  k_bind :: sysret
  k_connect :: sysret
  k_listen :: sysret
  k_setsockopt :: sysret
  k_ioctl :: sysret
  k_unlink :: sysret
  k_peercred :: "sysret \<times> ucred"
  k_self :: ucred
  k_blackhole :: "string option"
  k_random4 :: "32 word"
  k_random6 :: "128 word"
  k_pack4 :: "ucred \<Rightarrow> 32 word"

definition syscall :: "call \<Rightarrow> sysret \<Rightarrow> process \<Rightarrow> int \<times> process" where
  "syscall c r p = (fst r, p\<lparr>errno := snd r, calls := calls p @ [c]\<rparr>)"

definition real_socket :: "kernel \<Rightarrow> int \<Rightarrow> int \<Rightarrow> int \<Rightarrow> process \<Rightarrow> int \<times> process" where
  "real_socket k d t pr p = syscall (Sys_socket d t pr) (k_socket k) p"

definition real_close :: "kernel \<Rightarrow> int \<Rightarrow> process \<Rightarrow> int \<times> process" where
  "real_close k f p = syscall (Sys_close f) (k_close k) p"

definition real_bind :: "kernel \<Rightarrow> int \<Rightarrow> SockAddr \<Rightarrow> process \<Rightarrow> int \<times> process" where
  "real_bind k f dest p = syscall (Sys_bind f dest) (k_bind k) p"

definition real_connect :: "kernel \<Rightarrow> int \<Rightarrow> SockAddr \<Rightarrow> process \<Rightarrow> int \<times> process" where
  "real_connect k f dest p = syscall (Sys_connect f dest) (k_connect k) p"

definition real_listen :: "kernel \<Rightarrow> int \<Rightarrow> int \<Rightarrow> process \<Rightarrow> int \<times> process" where
  "real_listen k f backlog p = syscall (Sys_listen f backlog) (k_listen k) p"

definition real_setsockopt ::
  "kernel \<Rightarrow> int \<Rightarrow> int \<Rightarrow> int \<Rightarrow> 8 word list \<Rightarrow> process \<Rightarrow> int \<times> process" where
  "real_setsockopt k f level optname optval p =
     syscall (Sys_setsockopt f level optname optval) (k_setsockopt k) p"

definition real_ioctl :: "kernel \<Rightarrow> int \<Rightarrow> nat \<Rightarrow> 8 word list \<Rightarrow> process \<Rightarrow> int \<times> process" where
  "real_ioctl k f request arg p = syscall (Sys_ioctl f request arg) (k_ioctl k) p"

definition dup2 :: "kernel \<Rightarrow> int \<Rightarrow> int \<Rightarrow> process \<Rightarrow> int \<times> process" where
  "dup2 k newfd f p = syscall (Sys_dup2 newfd f) (k_dup2 k) p"

definition unlink :: "kernel \<Rightarrow> string \<Rightarrow> process \<Rightarrow> int \<times> process" where
  "unlink k path p = syscall (Sys_unlink path) (k_unlink k) p"

definition getsockopt_peercred :: "kernel \<Rightarrow> int \<Rightarrow> process \<Rightarrow> int \<times> ucred \<times> process" where
  "getsockopt_peercred k f p =
     (let (r, p') = syscall (Sys_peercred f) (fst (k_peercred k)) p
      in (r, snd (k_peercred k), p'))"

text \<open>
  Modelled from the spec: \<^verbatim>\<open>sockopts.replay(src_fd, dst_fd)\<close> re-applies the cache to the
  new descriptor and reports whether every call succeeded; the calls are the kernel's
  to answer.
\<close>

definition replay :: "kernel \<Rightarrow> cached list \<Rightarrow> int \<Rightarrow> int \<Rightarrow> process \<Rightarrow> bool \<times> process" where
  "replay k cs f newfd p =
     (fst (k_replay k), p\<lparr>errno := snd (k_replay k), calls := calls p @ [Sys_replay f newfd]\<rparr>)"

subsection \<open>\<^verbatim>\<open>Socket::find\<close>, \<^verbatim>\<open>has_sockpath\<close>, \<^verbatim>\<open>create\<close> and the constructor\<close>

definition find_sock :: "process \<Rightarrow> int \<Rightarrow> Socket option" where
  "find_sock p f = registry p f"

definition has_sockpath :: "process \<Rightarrow> string \<Rightarrow> bool" where
  "has_sockpath p path = (path \<in> sockpath_registry p)"

definition get_sotype :: "int \<Rightarrow> SocketType" where
  "get_sotype t =
     (let m = t AND (SOCK_STREAM OR SOCK_DGRAM)
      in if m = SOCK_STREAM then TCP else if m = SOCK_DGRAM then UDP else INVALID)"

text \<open>
  The constructor.  \<open>is_unix\<close> and \<open>is_blackhole\<close> are not in its initialiser list; the
  spec has both start false.
\<close>

definition new_Socket :: "int \<Rightarrow> int \<Rightarrow> int \<Rightarrow> int \<Rightarrow> Socket" where
  "new_Socket sfd sdomain stype sproto =
     \<lparr> type = get_sotype stype, fd = sfd, domain = sdomain, typearg = stype,
       protocol = sproto, is_unix = False, is_blackhole = False, activated = False,
       bound = False, binding = None, connection = None, sockpath = None,
       sockopts = [], ports = {}, peermap = Map.empty, revpeermap = Map.empty,
       blackhole_ref = None \<rparr>"

text \<open>
  \<^verbatim>\<open>Socket::create\<close> registers the new object; the destructor that may run for an object
  registered at the same descriptor before is left out.
\<close>

definition create :: "int \<Rightarrow> int \<Rightarrow> int \<Rightarrow> int \<Rightarrow> process \<Rightarrow> Socket \<times> process" where
  "create f d t pr p =
     (let sock = new_Socket f d t pr
      in (sock, p\<lparr>registry := (registry p)(f \<mapsto> sock)\<rparr>))"

text \<open>The destructor: it unlinks the path of a bound socket that was not activated.\<close>

definition destructor :: "kernel \<Rightarrow> Socket \<Rightarrow> process \<Rightarrow> process" where
  "destructor k s p =
     (case sockpath s of
        Some path \<Rightarrow>
          if bound s \<and> \<not> activated s then
            (let old_errno = errno p; (r, p') = unlink k path p
             in p'\<lparr>errno := old_errno\<rparr>)
          else p
      | None \<Rightarrow> p)"

definition blackhole :: "Socket \<Rightarrow> Socket" where
  "blackhole s = s\<lparr>is_blackhole := True\<rparr>"

subsection \<open>\<^verbatim>\<open>setsockopt\<close>, \<^verbatim>\<open>ioctl\<close>, \<^verbatim>\<open>listen\<close>\<close>

definition setsockopt ::
  "kernel \<Rightarrow> int \<Rightarrow> int \<Rightarrow> 8 word list \<Rightarrow> Socket \<Rightarrow> process \<Rightarrow> int \<times> Socket \<times> process" where
  "setsockopt k level optname optval s p =
     (let (ret, p') = real_setsockopt k (fd s) level optname optval p
      in if ret \<noteq> 0 then (ret, s, p')
         else if \<not> is_unix s
           then (ret, s\<lparr>sockopts := cache_sockopt level optname optval (sockopts s)\<rparr>, p')
         else (ret, s, p'))"

definition ioctl ::
  "kernel \<Rightarrow> nat \<Rightarrow> 8 word list \<Rightarrow> Socket \<Rightarrow> process \<Rightarrow> int \<times> Socket \<times> process" where
  "ioctl k request arg s p =
     (let (ret, p') = real_ioctl k (fd s) request arg p
      in if ret \<noteq> 0 then (ret, s, p')
         else if \<not> is_unix s
           then (ret, s\<lparr>sockopts := cache_ioctl request arg (sockopts s)\<rparr>, p')
         else (ret, s, p'))"

definition listen :: "kernel \<Rightarrow> int \<Rightarrow> Socket \<Rightarrow> process \<Rightarrow> int \<times> process" where
  "listen k backlog s p =
     (if activated s then (0, p) else real_listen k (fd s) backlog p)"

subsection \<open>\<^verbatim>\<open>Socket::format_sockpath\<close>\<close>

text \<open>
  The loop over the template: \<open>out\<close> is the string built so far, the last argument what
  is left of the template from index \<open>i\<close> on.  A \<^verbatim>\<open>%\<close> is a placeholder only when a
  character follows it (\<^verbatim>\<open>i + 1 < path_len\<close>).
\<close>

fun format_loop :: "SocketType \<Rightarrow> SockAddr \<Rightarrow> string \<Rightarrow> string \<Rightarrow> string" where
  "format_loop t addr out [] = out"
| "format_loop t addr out [c] = out @ [c]"
| "format_loop t addr out (c # d # rest) =
     (if c = CHR ''%'' then
        (if d = CHR ''%'' then format_loop t addr (out @ ''%'') rest
         else if d = CHR ''a'' then
           format_loop t addr (out @ value_or (get_host addr) ''unknown'') rest
         else if d = CHR ''p'' then
           format_loop t addr (out @ value_or (get_port_str addr) ''unknown'') rest
         else if d = CHR ''t'' then
           format_loop t addr
             (out @ (case t of TCP \<Rightarrow> ''tcp'' | UDP \<Rightarrow> ''udp'' | INVALID \<Rightarrow> ''unknown'')) rest
         else format_loop t addr (out @ [c]) (d # rest))
      else format_loop t addr (out @ [c]) (d # rest))"

definition format_sockpath :: "Socket \<Rightarrow> string \<Rightarrow> SockAddr \<Rightarrow> string" where
  "format_sockpath s path addr = format_loop (type s) addr [] path"

subsection \<open>\<^verbatim>\<open>Socket::make_unix\<close>, \<^verbatim>\<open>create_binding\<close>, \<^verbatim>\<open>activate\<close>\<close>

text \<open>
  The argument \<open>oldfd\<close> is \<open>-1\<close> when the caller passes none.  The \<^verbatim>\<open>perror\<close> messages of
  the failing exits are left out.
\<close>

definition make_unix :: "kernel \<Rightarrow> int \<Rightarrow> Socket \<Rightarrow> process \<Rightarrow> bool \<times> Socket \<times> process" where
  "make_unix k oldfd s p =
     (if is_unix s then (True, s, p)
      else
        let (newfd, p1) = (if oldfd \<noteq> - 1 then (oldfd, p)
                           else real_socket k AF_UNIX (typearg s) 0 p)
        in if oldfd = - 1 \<and> newfd = - 1 then (False, s, p1)
           else
             let (ok, p2) = replay k (sockopts s) (fd s) newfd p1
             in if \<not> ok then
                  (let (c, p3) = real_close k newfd p2 in (False, s, p3))
                else
                  let (d, p3) = dup2 k newfd (fd s) p2
                  in if d = - 1 then
                       (let (c, p4) = real_close k newfd p3 in (False, s, p4))
                     else (True, s\<lparr>is_unix := True\<rparr>, p3))"

definition create_binding :: "kernel \<Rightarrow> SockAddr \<Rightarrow> Socket \<Rightarrow> bool \<times> Socket" where
  "create_binding k addr s =
     (let local = with_family (domain s);
          (ok, local) = (if is_loopback addr then set_host addr local
                         else set_host_cred (k_pack4 k) (k_self k) local)
      in if \<not> ok then (False, s)
         else
           let (port, pool) = acquire (ports s);
               s = s\<lparr>ports := pool\<rparr>;
               (ok, local) = set_port port local
           in if \<not> ok then (False, s)
              else (True, s\<lparr>binding := Some local\<rparr>))"


subsection \<open>\<^verbatim>\<open>Socket::bind\<close>\<close>

text \<open>
  The macro \<^verbatim>\<open>USOCK_OR_EFAULT(path)\<close> is the case distinction on \<open>unix path\<close> that sets
  \<^verbatim>\<open>errno\<close> to \<^verbatim>\<open>EFAULT\<close> and returns \<open>-1\<close>.  The path of the local \<^verbatim>\<open>BlackHole\<close> is the
  kernel's \<open>k_blackhole\<close>; what the destructor of that local object does when its block
  ends belongs to class \<^verbatim>\<open>BlackHole\<close>, which is missing from \<^verbatim>\<open>src/\<close>, and is left out.
  The last \<^verbatim>\<open>if (ret == 0)\<close> of the method, shared by both branches, is \<open>bind_finish\<close>.
\<close>

definition bind_finish ::
  "int \<Rightarrow> 16 word option \<Rightarrow> SockAddr \<Rightarrow> Socket \<Rightarrow> process \<Rightarrow> int \<times> Socket \<times> process" where
  "bind_finish ret port newaddr s p =
     (if ret = 0 then
        (let s = (case port of Some v \<Rightarrow> s\<lparr>ports := reserve v (ports s)\<rparr> | None \<Rightarrow> s)
         in (ret, s\<lparr>bound := True, binding := Some newaddr\<rparr>, p))
      else (ret, s, p))"

definition bind ::
  "kernel \<Rightarrow> SockAddr \<Rightarrow> string \<Rightarrow> Socket \<Rightarrow> process \<Rightarrow> int \<times> Socket \<times> process" where
  "bind k addr path s p =
     (case make_unix k (- 1) s p of
        (False, s, p) \<Rightarrow> (- 1, s, p)
      | (True, s, p) \<Rightarrow>
          let newaddr = copy addr;
              port = get_port newaddr;
              (newaddr, port, s) =
                (if port = Some 0 then
                   (let (anyport, pool) = acquire (ports s)
                    in (snd (set_port anyport newaddr), Some anyport, s\<lparr>ports := pool\<rparr>))
                 else (newaddr, port, s));
              newpath = format_sockpath s path newaddr
          in if is_blackhole s \<or> has_sockpath p newpath then
               (case k_blackhole k of
                  None \<Rightarrow> (- 1, s, p)
                | Some bh_path \<Rightarrow>
                    (case unix bh_path of
                       None \<Rightarrow> (- 1, s, p\<lparr>errno := EFAULT\<rparr>)
                     | Some dest \<Rightarrow>
                         let (ret, p) = real_bind k (fd s) dest p;
                             s = (if ret = 0 then s\<lparr>is_blackhole := True\<rparr> else s)
                         in bind_finish ret port newaddr s p))
             else
               (case unix newpath of
                  None \<Rightarrow> (- 1, s, p\<lparr>errno := EFAULT\<rparr>)
                | Some dest \<Rightarrow>
                    let (ret, p) = real_bind k (fd s) dest p;
                        (s, p) =
                          (if ret = 0 then
                             (s\<lparr>sockpath := Some newpath\<rparr>,
                              p\<lparr>sockpath_registry := insert newpath (sockpath_registry p)\<rparr>)
                           else (s, p))
                    in bind_finish ret port newaddr s p))"

subsection \<open>\<^verbatim>\<open>Socket::connect_peermap\<close>, \<^verbatim>\<open>rewrite_dest\<close>, \<^verbatim>\<open>connect\<close>\<close>

definition connect_peermap ::
  "kernel \<Rightarrow> SockAddr \<Rightarrow> Socket \<Rightarrow> process \<Rightarrow> int option \<times> Socket \<times> process" where
  "connect_peermap k addr s p =
     (if type s = UDP then
        (case peermap s addr of
           Some found \<Rightarrow>
             (case unix found of
                None \<Rightarrow> (Some (- 1), s, p\<lparr>errno := EFAULT\<rparr>)
              | Some dest \<Rightarrow>
                  let (ret, p) = real_connect k (fd s) dest p
                  in if ret \<noteq> 0 then (Some ret, s, p)
                     else (Some ret, s\<lparr>connection := Some addr, sockpath := Some found\<rparr>, p))
         | None \<Rightarrow> (None, s, p))
      else (None, s, p))"

definition rewrite_dest_peermap :: "SockAddr \<Rightarrow> Socket \<Rightarrow> SockAddr option" where
  "rewrite_dest_peermap addr s =
     (case peermap s addr of
        Some found \<Rightarrow> (case unix found of None \<Rightarrow> None | Some dest \<Rightarrow> Some dest)
      | None \<Rightarrow> None)"

definition rewrite_dest ::
  "kernel \<Rightarrow> SockAddr \<Rightarrow> string \<Rightarrow> Socket \<Rightarrow> process \<Rightarrow> SockAddr option \<times> Socket \<times> process" where
  "rewrite_dest k addr path s p =
     (if type s \<noteq> UDP then (None, s, p)
      else
        (case unix (format_sockpath s path addr) of
           None \<Rightarrow> (None, s, p)
         | Some destpath \<Rightarrow>
             (case make_unix k (- 1) s p of
                (False, s, p) \<Rightarrow> (None, s, p)
              | (True, s, p) \<Rightarrow>
                  if binding s = None then
                    (case k_blackhole k of
                       None \<Rightarrow> (None, s, p)
                     | Some bh_path \<Rightarrow>
                         (case unix bh_path of
                            None \<Rightarrow> (None, s, p)
                          | Some dest \<Rightarrow>
                              let (ret, p) = real_bind k (fd s) dest p
                              in if ret \<noteq> 0 then (None, s, p)
                                 else
                                   (case create_binding k addr s of
                                      (False, s) \<Rightarrow> (None, s, p)
                                    | (True, s) \<Rightarrow>
                                        (Some destpath,
                                         s\<lparr>is_blackhole := True, blackhole_ref := Some bh_path\<rparr>,
                                         p))))
                  else (Some destpath, s, p))))"

definition connect ::
  "kernel \<Rightarrow> SockAddr \<Rightarrow> string \<Rightarrow> Socket \<Rightarrow> process \<Rightarrow> int \<times> Socket \<times> process" where
  "connect k addr path s p =
     (if type s = UDP \<and> binding s = None then
        (case rewrite_dest k addr path s p of
           (None, s, p) \<Rightarrow> (- 1, s, p\<lparr>errno := EADDRNOTAVAIL\<rparr>)
         | (Some dest, s, p) \<Rightarrow>
             let (ret, p) = real_connect k (fd s) dest p
             in if ret = 0
                then (ret, s\<lparr>connection := Some addr, sockpath := get_sockpath dest\<rparr>, p)
                else (ret, s, p))
      else
        let new_sockpath = format_sockpath s path addr
        in (case unix new_sockpath of
              None \<Rightarrow> (- 1, s, p\<lparr>errno := EFAULT\<rparr>)
            | Some dest \<Rightarrow>
                (case make_unix k (- 1) s p of
                   (False, s, p) \<Rightarrow> (- 1, s, p)
                 | (True, s, p) \<Rightarrow>
                     (case get_port addr of
                        None \<Rightarrow> (- 1, s, p\<lparr>errno := EADDRNOTAVAIL\<rparr>)
                      | Some remote_port \<Rightarrow>
                          let (ret, p) = real_connect k (fd s) dest p
                          in if ret \<noteq> 0 then (ret, s, p)
                             else if binding s = None then
                               (case create_binding k addr s of
                                  (False, s) \<Rightarrow> (- 1, s, p\<lparr>errno := EADDRNOTAVAIL\<rparr>)
                                | (True, s) \<Rightarrow>
                                    (ret,
                                     s\<lparr>ports := reserve remote_port (ports s),
                                       connection := Some addr,
                                       sockpath := Some new_sockpath\<rparr>,
                                     p))
                             else
                               (ret, s\<lparr>connection := Some addr,
                                       sockpath := Some new_sockpath\<rparr>, p)))))"

subsection \<open>\<^verbatim>\<open>Socket::accept\<close>, \<^verbatim>\<open>getpeername\<close>, \<^verbatim>\<open>getsockname\<close>\<close>



definition getpeername :: "Socket \<Rightarrow> process \<Rightarrow> int \<times> SockAddr option \<times> process" where
  "getpeername s p =
     (case connection s of
        Some c \<Rightarrow> (0, Some c, p)
      | None \<Rightarrow> (- 1, None, p\<lparr>errno := EFAULT\<rparr>))"

definition getsockname :: "Socket \<Rightarrow> process \<Rightarrow> int \<times> SockAddr option \<times> process" where
  "getsockname s p =
     (case binding s of
        Some b \<Rightarrow> (0, Some b, p)
      | None \<Rightarrow> (- 1, None, p\<lparr>errno := EFAULT\<rparr>))"

subsection \<open>\<^verbatim>\<open>Socket::rewrite_src\<close>\<close>

text \<open>
  The result is the return value, the address written through \<^verbatim>\<open>apply_addr\<close> (if any) and
  the object.  The method makes no system call and does not touch \<^verbatim>\<open>errno\<close>.
\<close>

definition rewrite_src :: "kernel \<Rightarrow> SockAddr \<Rightarrow> Socket \<Rightarrow> bool \<times> SockAddr option \<times> Socket" where
  "rewrite_src k real_addr s =
     (case binding s of
        None \<Rightarrow> (True, None, s)
      | Some b \<Rightarrow>
          (case get_sockpath real_addr of
             None \<Rightarrow> (True, None, s)
           | Some path \<Rightarrow>
               (case revpeermap s path of
                  Some found \<Rightarrow> (True, Some found, s)
                | None \<Rightarrow>
                    let peer = with_family (domain s);
                        (port, pool) = acquire (ports s);
                        s = s\<lparr>ports := pool\<rparr>;
                        peer = snd (set_port port peer);
                        (ok, peer) = (if is_loopback b then set_host b peer
                                      else set_random_host (k_random4 k) (k_random6 k) peer)
                    in if \<not> ok then (False, None, s)
                       else
                         (True, Some peer,
                          s\<lparr>peermap := (peermap s)(peer \<mapsto> path),
                            revpeermap := (revpeermap s)(path \<mapsto> peer)\<rparr>))))"

subsection \<open>\<^verbatim>\<open>Socket::close\<close>\<close>

definition close :: "kernel \<Rightarrow> Socket \<Rightarrow> process \<Rightarrow> int \<times> Socket \<times> process" where
  "close k s p =
     (let (ret, s, p) =
            (if activated s then (0, s, p)
             else
               let (ret, p) = real_close k (fd s) p
               in (case sockpath s of
                     Some path \<Rightarrow>
                       if bound s \<and> \<not> is_blackhole s then
                         (let old_errno = errno p;
                              (u, p) = unlink k path p;
                              p = p\<lparr>errno := old_errno\<rparr>;
                              p = p\<lparr>sockpath_registry := sockpath_registry p - {path}\<rparr>
                          in (ret, s\<lparr>sockpath := None\<rparr>, p))
                       else (ret, s, p)
                   | None \<Rightarrow> (ret, s, p)))
      in (ret, s, p\<lparr>registry := (registry p)(fd s := None)\<rparr>))"

subsection \<open>The placeholder rules in the spec's words\<close>

text \<open>
  The spec's table of placeholders, read from left to right over the template: \<^verbatim>\<open>%%\<close>
  gives \<^verbatim>\<open>%\<close>, \<^verbatim>\<open>%a\<close> the host string or \<^verbatim>\<open>unknown\<close>, \<^verbatim>\<open>%p\<close> the port string or
  \<^verbatim>\<open>unknown\<close>, \<^verbatim>\<open>%t\<close> one of \<^verbatim>\<open>tcp\<close>, \<^verbatim>\<open>udp\<close>, \<^verbatim>\<open>unknown\<close>; everything else stays.
\<close>

fun expand :: "SocketType \<Rightarrow> SockAddr \<Rightarrow> string \<Rightarrow> string" where
  "expand t addr [] = []"
| "expand t addr [c] = [c]"
| "expand t addr (c # d # rest) =
     (if c = CHR ''%'' then
        (if d = CHR ''%'' then CHR ''%'' # expand t addr rest
         else if d = CHR ''a'' then
           (case get_host addr of Some h \<Rightarrow> h | None \<Rightarrow> ''unknown'') @ expand t addr rest
         else if d = CHR ''p'' then
           (case get_port_str addr of Some q \<Rightarrow> q | None \<Rightarrow> ''unknown'') @ expand t addr rest
         else if d = CHR ''t'' then
           (case t of TCP \<Rightarrow> ''tcp'' | UDP \<Rightarrow> ''udp'' | INVALID \<Rightarrow> ''unknown'')
             @ expand t addr rest
         else c # expand t addr (d # rest))
      else c # expand t addr (d # rest))"

subsection \<open>Names for what the methods compute on the way\<close>

text \<open>
  The address \<^verbatim>\<open>Socket::bind\<close> formats the template against and stores as the binding:
  the copy of \<open>addr\<close>, with the acquired port in place of port 0.
\<close>

definition bind_newaddr :: "SockAddr \<Rightarrow> Socket \<Rightarrow> SockAddr" where
  "bind_newaddr addr s =
     (if get_port addr = Some 0 then snd (set_port (fst (acquire (ports s))) addr) else addr)"


text \<open>
  The peer \<^verbatim>\<open>Socket::rewrite_src\<close> synthesizes for an unknown remote path: the port is
  set first, then the host.
\<close>

definition rewrite_src_peer :: "kernel \<Rightarrow> Socket \<Rightarrow> SockAddr \<Rightarrow> SockAddr" where
  "rewrite_src_peer k s b =
     snd (if is_loopback b
          then set_host b (snd (set_port (fst (acquire (ports s))) (with_family (domain s))))
          else set_random_host (k_random4 k) (k_random6 k)
                 (snd (set_port (fst (acquire (ports s))) (with_family (domain s)))))"

text \<open>A run of \<^verbatim>\<open>rewrite_src\<close> calls on one socket, each with its own kernel and source.\<close>

fun rewrite_src_many :: "(kernel \<times> SockAddr) list \<Rightarrow> Socket \<Rightarrow> Socket" where
  "rewrite_src_many [] s = s"
| "rewrite_src_many ((k, a) # cs) s = rewrite_src_many cs (snd (snd (rewrite_src k a s)))"

subsection \<open>Concrete inputs\<close>

text \<open>
  A process that has made no call yet, a kernel under which every call succeeds (the
  new descriptor is 7), and the sockets of the spec's scenarios.
\<close>

definition process0 :: process where
  "process0 = \<lparr> registry = Map.empty, sockpath_registry = {}, errno = 0, calls = [] \<rparr>"

definition kernel_ok :: kernel where
  "kernel_ok =
     \<lparr> k_socket = (7, 0), k_replay = (True, 0), k_dup2 = (3, 0), k_close = (0, 0),
       k_bind = (0, 0), k_connect = (0, 0), k_listen = (0, 0), k_setsockopt = (0, 0),
       k_ioctl = (0, 0), k_unlink = (0, 0),
       k_peercred = ((0, 0), \<lparr> pid = 4711, uid = 1000, gid = 100 \<rparr>),
       k_self = \<lparr> pid = 4242, uid = 1000, gid = 100 \<rparr>,
       k_blackhole = Some ''/tmp/ip2unix.bh/0'',
       k_random4 = 0x0A2A2A2A, k_random6 = 0xFD000000000000000000000000002A2A,
       k_pack4 = (\<lambda>c. pid c) \<rparr>"

definition sock_tcp :: Socket where
  "sock_tcp = new_Socket 3 AF_INET SOCK_STREAM 0"

definition sock_udp :: Socket where
  "sock_udp = new_Socket 5 AF_INET SOCK_DGRAM 0"

section \<open>Properties\<close>

subsection \<open>Unfolding the model\<close>

lemmas example_defs =
  sock_tcp_def sock_udp_def kernel_ok_def process0_def new_Socket_def get_sotype_def
  SOCK_STREAM_def SOCK_DGRAM_def AF_INET_def AF_INET6_def AF_UNIX_def

lemmas syscall_defs =
  syscall_def real_socket_def real_close_def real_bind_def real_connect_def dup2_def
  unlink_def replay_def getsockopt_peercred_def

lemma make_unix_cases:
  "make_unix k oldfd s p = (r, s', p') \<Longrightarrow>
     registry p' = registry p \<and> sockpath_registry p' = sockpath_registry p \<and>
     s' = (if r then s\<lparr>is_unix := True\<rparr> else s)"
  by (auto simp: make_unix_def syscall_defs Let_def split: if_splits prod.splits)

subsection \<open>Placeholder expansion\<close>

lemma format_loop_expand: "format_loop t a out path = out @ expand t a path"
  by (induction t a path arbitrary: out rule: expand.induct)
     (auto simp: value_or_def split: option.splits)

lemma format_sockpath_expand: "format_sockpath s path a = expand (type s) a path"
  by (simp add: format_sockpath_def format_loop_expand)

lemma expand_plain: "CHR ''%'' \<notin> set path \<Longrightarrow> expand t a path = path"
  by (induction t a path rule: expand.induct) auto

lemma expand_other: "c \<noteq> CHR ''%'' \<Longrightarrow> expand t a (c # rest) = c # expand t a rest"
  by (cases rest) auto

text \<open>
  C9.  \<open>format_sockpath\<close> expands \<^verbatim>\<open>%%\<close> to \<^verbatim>\<open>%\<close>, \<^verbatim>\<open>%a\<close> to the host string of the address
  (\<^verbatim>\<open>unknown\<close> when it has none), \<^verbatim>\<open>%p\<close> to its port string (\<^verbatim>\<open>unknown\<close> when it has none)
  and \<^verbatim>\<open>%t\<close> to \<^verbatim>\<open>tcp\<close>, \<^verbatim>\<open>udp\<close> or \<^verbatim>\<open>unknown\<close> by the type of the socket; a \<^verbatim>\<open>%\<close> followed
  by any other character, a \<^verbatim>\<open>%\<close> at the very end and every other character are copied
  as they are.  So a template without \<^verbatim>\<open>%\<close> is its own expansion.
\<close>

theorem format_sockpath_placeholders:
  "format_sockpath s (CHR ''%'' # CHR ''%'' # rest) addr = CHR ''%'' # format_sockpath s rest addr
   \<and> format_sockpath s (CHR ''%'' # CHR ''a'' # rest) addr =
       (case get_host addr of Some h \<Rightarrow> h | None \<Rightarrow> ''unknown'') @ format_sockpath s rest addr
   \<and> format_sockpath s (CHR ''%'' # CHR ''p'' # rest) addr =
       (case get_port_str addr of Some q \<Rightarrow> q | None \<Rightarrow> ''unknown'')
         @ format_sockpath s rest addr
   \<and> format_sockpath s (CHR ''%'' # CHR ''t'' # rest) addr =
       (case type s of TCP \<Rightarrow> ''tcp'' | UDP \<Rightarrow> ''udp'' | INVALID \<Rightarrow> ''unknown'')
         @ format_sockpath s rest addr
   \<and> (x \<noteq> CHR ''%'' \<and> x \<noteq> CHR ''a'' \<and> x \<noteq> CHR ''p'' \<and> x \<noteq> CHR ''t'' \<longrightarrow>
        format_sockpath s (CHR ''%'' # x # rest) addr
          = CHR ''%'' # x # format_sockpath s rest addr)
   \<and> format_sockpath s ''%'' addr = ''%''
   \<and> (c \<noteq> CHR ''%'' \<longrightarrow>
        format_sockpath s (c # rest) addr = c # format_sockpath s rest addr)
   \<and> format_sockpath s [] addr = []
   \<and> (CHR ''%'' \<notin> set path \<longrightarrow> format_sockpath s path addr = path)"
  by (simp add: format_sockpath_expand expand_plain expand_other)

theorem format_sockpath_placeholders_witness:
  "format_sockpath sock_tcp ''%x'' (IPv4 0x7F000001 8080) = ''%x''
   \<and> format_sockpath sock_tcp ''/%%'' (IPv4 0x7F000001 8080) = ''/%''
   \<and> format_sockpath sock_tcp ''/tmp/svc.sock'' (IPv4 0x7F000001 8080) = ''/tmp/svc.sock''"
  using
    format_sockpath_placeholders [where s = sock_tcp and rest = "[]"
      and addr = "IPv4 0x7F000001 8080" and x = "CHR ''x''" and c = "CHR ''/''"
      and path = "''/tmp/svc.sock''"]
    format_sockpath_placeholders [where s = sock_tcp and rest = "''%%''"
      and addr = "IPv4 0x7F000001 8080" and x = "CHR ''x''" and c = "CHR ''/''"
      and path = "''/tmp/svc.sock''"]
  by simp

subsection \<open>\<^verbatim>\<open>make_unix\<close>\<close>

text \<open>
  C7.  \<open>make_unix\<close> is idempotent: on a socket that is already UNIX it returns true and
  does nothing, and after a call that returned true every further call does so.  When
  the socket is not yet UNIX, a descriptor was adopted or created, and replaying the
  option cache on it fails, \<open>make_unix\<close> returns false and leaves the object as it was
  (\<open>fd\<close> unchanged, \<open>is_unix\<close> false, registries untouched); the only calls made are the
  creation of the new descriptor (when none is adopted), the replay and the close of
  the new descriptor; no \<^verbatim>\<open>dup2\<close> puts anything in the place of \<open>fd\<close>.
\<close>

theorem make_unix_idempotent:
  "(is_unix s \<longrightarrow> make_unix k oldfd s p = (True, s, p))
   \<and> (make_unix k oldfd s p = (True, s', p') \<longrightarrow>
        is_unix s' \<and> make_unix k2 oldfd2 s' p' = (True, s', p'))
   \<and> (\<not> is_unix s \<and> (oldfd \<noteq> - 1 \<or> fst (k_socket k) \<noteq> - 1) \<and> \<not> fst (k_replay k) \<longrightarrow>
        (case make_unix k oldfd s p of (r, s', p') \<Rightarrow>
           \<not> r \<and> s' = s \<and> fd s' = fd s \<and> \<not> is_unix s'
           \<and> registry p' = registry p \<and> sockpath_registry p' = sockpath_registry p
           \<and> calls p' = calls p
               @ (if oldfd \<noteq> - 1 then [] else [Sys_socket AF_UNIX (typearg s) 0])
               @ [Sys_replay (fd s) (if oldfd \<noteq> - 1 then oldfd else fst (k_socket k)),
                  Sys_close (if oldfd \<noteq> - 1 then oldfd else fst (k_socket k))]))"
  by (auto simp: make_unix_def syscall_defs Let_def split: if_splits prod.splits)

theorem make_unix_idempotent_witness:
  "make_unix kernel_ok (- 1) (sock_tcp\<lparr>is_unix := True\<rparr>) process0
     = (True, sock_tcp\<lparr>is_unix := True\<rparr>, process0)
   \<and> make_unix kernel_ok (- 1) sock_tcp process0
     = (True, sock_tcp\<lparr>is_unix := True\<rparr>,
        process0\<lparr>calls := [Sys_socket 1 1 0, Sys_replay 3 7, Sys_dup2 7 3]\<rparr>)
   \<and> make_unix (kernel_ok\<lparr>k_socket := (- 1, 24)\<rparr>) (- 1) (sock_tcp\<lparr>is_unix := True\<rparr>)
        (process0\<lparr>calls := [Sys_socket 1 1 0, Sys_replay 3 7, Sys_dup2 7 3]\<rparr>)
     = (True, sock_tcp\<lparr>is_unix := True\<rparr>,
        process0\<lparr>calls := [Sys_socket 1 1 0, Sys_replay 3 7, Sys_dup2 7 3]\<rparr>)
   \<and> make_unix (kernel_ok\<lparr>k_replay := (False, 92)\<rparr>) (- 1) sock_tcp process0
     = (False, sock_tcp,
        process0\<lparr>calls := [Sys_socket 1 1 0, Sys_replay 3 7, Sys_close 7]\<rparr>)"
  using
    make_unix_idempotent [where s = "sock_tcp\<lparr>is_unix := True\<rparr>" and k = kernel_ok
      and oldfd = "- 1" and p = process0]
    make_unix_idempotent [where s = sock_tcp and k = kernel_ok and oldfd = "- 1"
      and p = process0 and s' = "sock_tcp\<lparr>is_unix := True\<rparr>"
      and p' = "process0\<lparr>calls := [Sys_socket 1 1 0, Sys_replay 3 7, Sys_dup2 7 3]\<rparr>"
      and ?k2.0 = "kernel_ok\<lparr>k_socket := (- 1, 24)\<rparr>" and ?oldfd2.0 = "- 1"]
    make_unix_idempotent [where s = sock_tcp and k = "kernel_ok\<lparr>k_replay := (False, 92)\<rparr>"
      and oldfd = "- 1" and p = process0]
  by (simp add: example_defs make_unix_def syscall_defs)

subsection \<open>\<^verbatim>\<open>close\<close>\<close>

text \<open>
  C6.  \<open>close\<close> always removes the entry of the socket's descriptor from the descriptor
  registry.  On an activated socket it returns 0 and makes no call (no real close, no
  unlink), leaving \<^verbatim>\<open>errno\<close>, the object and the path registry as they were.  Otherwise
  it makes the real close and returns what that returned; when \<open>sockpath\<close> is set,
  \<open>bound\<close> is true and \<open>is_blackhole\<close> is false it then unlinks the path, removes it from
  the path registry and clears \<open>sockpath\<close>, and \<^verbatim>\<open>errno\<close> is what the real close left,
  whatever the unlink did to it; in the remaining cases nothing is unlinked.
\<close>

theorem close_contract:
  "(case close k s p of (ret, s', p') \<Rightarrow>
      registry p' = (registry p)(fd s := None)
      \<and> (activated s \<longrightarrow>
            ret = 0 \<and> s' = s \<and> calls p' = calls p \<and> errno p' = errno p
            \<and> sockpath_registry p' = sockpath_registry p)
      \<and> (\<not> activated s \<longrightarrow>
            ret = fst (k_close k) \<and> errno p' = snd (k_close k)
            \<and> (case sockpath s of
                  Some path \<Rightarrow>
                    if bound s \<and> \<not> is_blackhole s then
                      calls p' = calls p @ [Sys_close (fd s), Sys_unlink path]
                      \<and> sockpath_registry p' = sockpath_registry p - {path}
                      \<and> s' = s\<lparr>sockpath := None\<rparr>
                    else
                      calls p' = calls p @ [Sys_close (fd s)]
                      \<and> sockpath_registry p' = sockpath_registry p \<and> s' = s
                | None \<Rightarrow>
                    calls p' = calls p @ [Sys_close (fd s)]
                    \<and> sockpath_registry p' = sockpath_registry p \<and> s' = s)))"
  by (auto simp: close_def real_close_def unlink_def syscall_def Let_def
      split: if_splits prod.splits option.splits)

theorem close_contract_witness:
  "close (kernel_ok\<lparr>k_close := (- 1, 9), k_unlink := (- 1, 2)\<rparr>)
     (sock_tcp\<lparr>activated := True, bound := True, sockpath := Some ''/run/a.sock''\<rparr>)
     (process0\<lparr>registry := [3 \<mapsto> sock_tcp], sockpath_registry := {''/run/a.sock''}\<rparr>)
     = (0, sock_tcp\<lparr>activated := True, bound := True, sockpath := Some ''/run/a.sock''\<rparr>,
        process0\<lparr>registry := Map.empty, sockpath_registry := {''/run/a.sock''}\<rparr>)
   \<and> close (kernel_ok\<lparr>k_close := (0, 0), k_unlink := (- 1, 2)\<rparr>)
     (sock_tcp\<lparr>bound := True, sockpath := Some ''/tmp/a.sock''\<rparr>)
     (process0\<lparr>registry := [3 \<mapsto> sock_tcp], sockpath_registry := {''/tmp/a.sock''}\<rparr>)
     = (0, sock_tcp\<lparr>bound := True, sockpath := None\<rparr>,
        process0\<lparr>registry := Map.empty, sockpath_registry := {},
          calls := [Sys_close 3, Sys_unlink ''/tmp/a.sock'']\<rparr>)"
  using
    close_contract [where k = "kernel_ok\<lparr>k_close := (- 1, 9), k_unlink := (- 1, 2)\<rparr>"
      and s = "sock_tcp\<lparr>activated := True, bound := True, sockpath := Some ''/run/a.sock''\<rparr>"
      and p = "process0\<lparr>registry := [3 \<mapsto> sock_tcp], sockpath_registry := {''/run/a.sock''}\<rparr>"]
    close_contract [where k = "kernel_ok\<lparr>k_close := (0, 0), k_unlink := (- 1, 2)\<rparr>"
      and s = "sock_tcp\<lparr>bound := True, sockpath := Some ''/tmp/a.sock''\<rparr>"
      and p = "process0\<lparr>registry := [3 \<mapsto> sock_tcp], sockpath_registry := {''/tmp/a.sock''}\<rparr>"]
  by (simp add: example_defs close_def syscall_defs)

subsection \<open>\<^verbatim>\<open>connect_peermap\<close>\<close>

text \<open>
  C10.  \<open>connect_peermap\<close> on a socket that is not UDP, or for an address that is not a
  key of \<open>peermap\<close>, makes no call, changes nothing and returns no result.  On a UDP
  socket whose \<open>peermap\<close> records a (valid UNIX) path for the address, it connects the
  descriptor to that path and returns what the real connect returned; when that is 0
  it sets \<open>connection\<close> to the address and \<open>sockpath\<close> to the path, and otherwise leaves
  the object unchanged.
\<close>

theorem connect_peermap_contract:
  "(type s \<noteq> UDP \<or> peermap s addr = None \<longrightarrow> connect_peermap k addr s p = (None, s, p))
   \<and> (type s = UDP \<and> peermap s addr = Some path \<and> unix path = Some dest \<longrightarrow>
        dest = UNIX path
        \<and> connect_peermap k addr s p =
            (Some (fst (k_connect k)),
             (if fst (k_connect k) = 0
              then s\<lparr>connection := Some addr, sockpath := Some path\<rparr> else s),
             p\<lparr>errno := snd (k_connect k), calls := calls p @ [Sys_connect (fd s) (UNIX path)]\<rparr>))"
  by (auto simp: connect_peermap_def real_connect_def syscall_def unix_def Let_def
      split: if_splits prod.splits option.splits)

theorem connect_peermap_contract_witness:
  "connect_peermap kernel_ok (IPv4 0x0A000005 9000)
      (sock_tcp\<lparr>peermap := [IPv4 0x0A000005 9000 \<mapsto> ''/tmp/peer'']\<rparr>) process0
     = (None, sock_tcp\<lparr>peermap := [IPv4 0x0A000005 9000 \<mapsto> ''/tmp/peer'']\<rparr>, process0)
   \<and> connect_peermap kernel_ok (IPv4 0x0A000005 9000) sock_udp process0
     = (None, sock_udp, process0)
   \<and> connect_peermap kernel_ok (IPv4 0x0A000005 9000)
      (sock_udp\<lparr>peermap := [IPv4 0x0A000005 9000 \<mapsto> ''/tmp/peer'']\<rparr>) process0
     = (Some 0,
        sock_udp\<lparr>peermap := [IPv4 0x0A000005 9000 \<mapsto> ''/tmp/peer''],
          connection := Some (IPv4 0x0A000005 9000), sockpath := Some ''/tmp/peer''\<rparr>,
        process0\<lparr>calls := [Sys_connect 5 (UNIX ''/tmp/peer'')]\<rparr>)
   \<and> connect_peermap (kernel_ok\<lparr>k_connect := (- 1, 111)\<rparr>) (IPv4 0x0A000005 9000)
      (sock_udp\<lparr>peermap := [IPv4 0x0A000005 9000 \<mapsto> ''/tmp/peer'']\<rparr>) process0
     = (Some (- 1), sock_udp\<lparr>peermap := [IPv4 0x0A000005 9000 \<mapsto> ''/tmp/peer'']\<rparr>,
        process0\<lparr>errno := 111, calls := [Sys_connect 5 (UNIX ''/tmp/peer'')]\<rparr>)"
  using
    connect_peermap_contract [where s = "sock_tcp\<lparr>peermap := [IPv4 0x0A000005 9000 \<mapsto> ''/tmp/peer'']\<rparr>"
      and addr = "IPv4 0x0A000005 9000" and k = kernel_ok and p = process0]
    connect_peermap_contract [where s = sock_udp
      and addr = "IPv4 0x0A000005 9000" and k = kernel_ok and p = process0]
    connect_peermap_contract [where s = "sock_udp\<lparr>peermap := [IPv4 0x0A000005 9000 \<mapsto> ''/tmp/peer'']\<rparr>"
      and addr = "IPv4 0x0A000005 9000" and k = kernel_ok and p = process0
      and path = "''/tmp/peer''" and dest = "UNIX ''/tmp/peer''"]
    connect_peermap_contract [where s = "sock_udp\<lparr>peermap := [IPv4 0x0A000005 9000 \<mapsto> ''/tmp/peer'']\<rparr>"
      and addr = "IPv4 0x0A000005 9000" and k = "kernel_ok\<lparr>k_connect := (- 1, 111)\<rparr>" and p = process0
      and path = "''/tmp/peer''" and dest = "UNIX ''/tmp/peer''"]
  by (simp add: example_defs unix_def sun_path_max_def)

text \<open>
  The paths in \<open>peermap\<close> are put there by \<^verbatim>\<open>rewrite_src\<close> alone, from the source addresses
  it is given: if those carry valid UNIX paths, so does \<open>peermap\<close>.
\<close>

lemma rewrite_src_paths_valid:
  assumes "rewrite_src k a s = (r, out, s')"
      and "\<forall>x path. peermap s x = Some path \<longrightarrow> unix path \<noteq> None"
      and "\<forall>P. get_sockpath a = Some P \<longrightarrow> unix P \<noteq> None"
  shows "\<forall>x path. peermap s' x = Some path \<longrightarrow> unix path \<noteq> None"
  using assms
  by (auto simp: rewrite_src_def Let_def split: option.splits prod.splits if_splits)

subsection \<open>\<^verbatim>\<open>bind\<close>\<close>

lemma set_port_zero:
  "get_port addr = Some 0 \<Longrightarrow>
     get_port (snd (set_port n addr)) = Some n
     \<and> get_host (snd (set_port n addr)) = get_host addr
     \<and> ss_family (snd (set_port n addr)) = ss_family addr"
  by (cases addr) auto

text \<open>
  C1.  Let \<open>addr\<close> carry port 0, let \<open>N\<close> be the port the pool hands out, \<open>newaddr\<close> the
  address \<open>addr\<close> with \<open>N\<close> in place of its port, and \<open>newpath\<close> the template formatted
  against \<open>newaddr\<close>.  Once \<open>make_unix\<close> has succeeded, \<open>bind\<close> has taken \<open>N\<close> from the
  pool, and the path it binds (when the socket is not blackholed) is \<open>newpath\<close>: the
  port is substituted before the template is formatted.  If \<open>bind\<close> returns 0, which
  it does only when the real bind returned 0, then \<open>N\<close> is reserved in the pool, \<open>bound\<close>
  is true and the binding is \<open>newaddr\<close>, which \<open>getsockname\<close> then reports.
\<close>

theorem bind_port_zero:
  assumes "get_port addr = Some 0"
  shows "(let N = fst (acquire (ports s));
              newaddr = snd (set_port N addr);
              newpath = format_sockpath s path newaddr
          in case bind k addr path s p of (ret, s', p') \<Rightarrow>
     get_port newaddr = Some N \<and> get_host newaddr = get_host addr
       \<and> ss_family newaddr = ss_family addr
   \<and> (fst (make_unix k (- 1) s p) \<longrightarrow>
        ports s' = (if ret = 0 then reserve N (snd (acquire (ports s)))
                    else snd (acquire (ports s))))
   \<and> (fst (make_unix k (- 1) s p) \<and> \<not> is_blackhole s \<and> \<not> has_sockpath p newpath
        \<and> unix newpath = Some dest \<longrightarrow>
        ret = fst (k_bind k)
        \<and> calls p' = calls (snd (snd (make_unix k (- 1) s p))) @ [Sys_bind (fd s) (UNIX newpath)])
   \<and> (ret = 0 \<longrightarrow>
        fst (k_bind k) = 0
        \<and> N \<in> ports s'
        \<and> bound s'
        \<and> binding s' = Some newaddr
        \<and> getsockname s' p' = (0, Some newaddr, p')))"
proof -
  obtain r s1 p1 where mu: "make_unix k (- 1) s p = (r, s1, p1)"
    by (cases "make_unix k (- 1) s p") auto
  note mc = make_unix_cases[OF mu]
  obtain n pool where acq: "acquire (ports s) = (n, pool)"
    by (cases "acquire (ports s)") auto
  show ?thesis
    using assms mc set_port_zero[OF assms, of n]
    by (auto simp: bind_def mu acq Let_def copy_def bind_finish_def real_bind_def syscall_def
        has_sockpath_def reserve_def getsockname_def unix_def format_sockpath_def
        split: if_splits prod.splits option.splits)
qed

theorem bind_port_zero_witness:
  "bind kernel_ok (IPv4 0x7F000001 0) ''/tmp/svc-%p.sock'' sock_tcp
       (process0\<lparr>registry := [3 \<mapsto> sock_tcp]\<rparr>)
     = (0,
        sock_tcp\<lparr>is_unix := True, bound := True, binding := Some (IPv4 0x7F000001 32768),
          sockpath := Some ''/tmp/svc-32768.sock'', ports := {32768}\<rparr>,
        process0\<lparr>registry := [3 \<mapsto> sock_tcp], sockpath_registry := {''/tmp/svc-32768.sock''},
          calls := [Sys_socket 1 1 0, Sys_replay 3 7, Sys_dup2 7 3,
                    Sys_bind 3 (UNIX ''/tmp/svc-32768.sock'')]\<rparr>)
   \<and> getsockname
        (sock_tcp\<lparr>is_unix := True, bound := True, binding := Some (IPv4 0x7F000001 32768),
          sockpath := Some ''/tmp/svc-32768.sock'', ports := {32768}\<rparr>)
        process0
     = (0, Some (IPv4 0x7F000001 32768), process0)"
  using bind_port_zero [where addr = "IPv4 0x7F000001 0" and s = sock_tcp and k = kernel_ok
      and path = "''/tmp/svc-%p.sock''" and p = "process0\<lparr>registry := [3 \<mapsto> sock_tcp]\<rparr>"
      and dest = "UNIX ''/tmp/svc-32768.sock''"]
  by (simp add: example_defs bind_def make_unix_def syscall_defs Let_def copy_def
      bind_finish_def has_sockpath_def reserve_def getsockname_def unix_def sun_path_max_def
      format_sockpath_def acquire_def first_free.simps port_lo_def port_hi_def value_or_def
      get_port_str_def decimal.simps digit_def)

text \<open>
  C3.  Let \<open>newpath\<close> be the formatted path.  If \<open>is_blackhole\<close> is set or \<open>newpath\<close> is
  in the path registry, \<open>bind\<close> leaves the path registry and \<open>sockpath\<close> as they were,
  the real bind it makes is on the path of a new blackhole and not on \<open>newpath\<close>, and
  \<open>is_blackhole\<close> is set when it returns 0.  Otherwise a \<open>bind\<close> that returns 0 has bound
  \<open>newpath\<close>, has inserted it into the path registry and has recorded it as \<open>sockpath\<close>,
  and a \<open>bind\<close> that fails changes neither.
\<close>

theorem bind_blackhole_or_path:
  "(let newpath = format_sockpath s path (bind_newaddr addr s)
    in case bind k addr path s p of (ret, s', p') \<Rightarrow>
     (if is_blackhole s \<or> has_sockpath p newpath then
        sockpath_registry p' = sockpath_registry p \<and> sockpath s' = sockpath s
        \<and> (fst (make_unix k (- 1) s p) \<and> k_blackhole k = Some bh \<and> unix bh = Some dest \<longrightarrow>
              ret = fst (k_bind k)
              \<and> calls p' = calls (snd (snd (make_unix k (- 1) s p))) @ [Sys_bind (fd s) (UNIX bh)])
        \<and> (ret = 0 \<longrightarrow>
              is_blackhole s'
              \<and> (\<exists>bh'. k_blackhole k = Some bh' \<and> last (calls p') = Sys_bind (fd s) (UNIX bh')))
      else
        (ret = 0 \<longrightarrow>
           sockpath_registry p' = insert newpath (sockpath_registry p)
           \<and> sockpath s' = Some newpath
           \<and> is_blackhole s' = is_blackhole s
           \<and> last (calls p') = Sys_bind (fd s) (UNIX newpath))
        \<and> (ret \<noteq> 0 \<longrightarrow>
              sockpath_registry p' = sockpath_registry p \<and> sockpath s' = sockpath s)))"
proof -
  obtain r s1 p1 where mu: "make_unix k (- 1) s p = (r, s1, p1)"
    by (cases "make_unix k (- 1) s p") auto
  note mc = make_unix_cases[OF mu]
  obtain n pool where acq: "acquire (ports s) = (n, pool)"
    by (cases "acquire (ports s)") auto
  show ?thesis
    using mc
    by (auto simp: bind_def mu acq Let_def copy_def bind_finish_def real_bind_def syscall_def
        has_sockpath_def reserve_def bind_newaddr_def unix_def format_sockpath_def
        split: if_splits prod.splits option.splits)
qed

theorem bind_blackhole_or_path_witness:
  "bind kernel_ok (IPv4 0x7F000001 8080) ''/tmp/svc-%p.sock'' sock_tcp
       (process0\<lparr>sockpath_registry := {''/tmp/svc-8080.sock''}\<rparr>)
     = (0,
        sock_tcp\<lparr>is_unix := True, is_blackhole := True, bound := True,
          binding := Some (IPv4 0x7F000001 8080), ports := {8080}\<rparr>,
        process0\<lparr>sockpath_registry := {''/tmp/svc-8080.sock''},
          calls := [Sys_socket 1 1 0, Sys_replay 3 7, Sys_dup2 7 3,
                    Sys_bind 3 (UNIX ''/tmp/ip2unix.bh/0'')]\<rparr>)
   \<and> bind kernel_ok (IPv4 0x7F000001 8080) ''/tmp/svc-%p.sock'' sock_tcp process0
     = (0,
        sock_tcp\<lparr>is_unix := True, bound := True,
          binding := Some (IPv4 0x7F000001 8080), ports := {8080},
          sockpath := Some ''/tmp/svc-8080.sock''\<rparr>,
        process0\<lparr>sockpath_registry := {''/tmp/svc-8080.sock''},
          calls := [Sys_socket 1 1 0, Sys_replay 3 7, Sys_dup2 7 3,
                    Sys_bind 3 (UNIX ''/tmp/svc-8080.sock'')]\<rparr>)
   \<and> bind (kernel_ok\<lparr>k_bind := (- 1, 98)\<rparr>) (IPv4 0x7F000001 8080) ''/tmp/svc-%p.sock''
       sock_tcp process0
     = (- 1, sock_tcp\<lparr>is_unix := True\<rparr>,
        process0\<lparr>errno := 98,
          calls := [Sys_socket 1 1 0, Sys_replay 3 7, Sys_dup2 7 3,
                    Sys_bind 3 (UNIX ''/tmp/svc-8080.sock'')]\<rparr>)"
  using
    bind_blackhole_or_path [where addr = "IPv4 0x7F000001 8080" and s = sock_tcp
      and k = kernel_ok and path = "''/tmp/svc-%p.sock''"
      and p = "process0\<lparr>sockpath_registry := {''/tmp/svc-8080.sock''}\<rparr>"
      and bh = "''/tmp/ip2unix.bh/0''" and dest = "UNIX ''/tmp/ip2unix.bh/0''"]
    bind_blackhole_or_path [where addr = "IPv4 0x7F000001 8080" and s = sock_tcp
      and k = kernel_ok and path = "''/tmp/svc-%p.sock''" and p = process0]
    bind_blackhole_or_path [where addr = "IPv4 0x7F000001 8080" and s = sock_tcp
      and k = "kernel_ok\<lparr>k_bind := (- 1, 98)\<rparr>" and path = "''/tmp/svc-%p.sock''"
      and p = process0]
  by (simp add: example_defs bind_def make_unix_def syscall_defs Let_def copy_def
      bind_finish_def has_sockpath_def reserve_def bind_newaddr_def unix_def sun_path_max_def
      format_sockpath_def value_or_def get_port_str_def decimal.simps digit_def)

subsection \<open>The port pool\<close>

lemma first_free_Some:
  "first_free r n = Some m \<Longrightarrow> word_of_nat m \<notin> r \<and> n \<le> m \<and> m \<le> port_hi"
proof (induction r n rule: first_free.induct)
  case (1 r n)
  have eq: "first_free r n =
     (if port_hi < n then None
      else if word_of_nat n \<notin> r then Some n
      else first_free r (Suc n))"
    by (rule first_free.simps)
  show ?case
  proof (cases "port_hi < n")
    case True
    with eq "1.prems" show ?thesis by simp
  next
    case False
    note inrange = this
    show ?thesis
    proof (cases "word_of_nat n \<notin> r")
      case True
      with eq inrange "1.prems" show ?thesis by auto
    next
      case False
      with eq inrange "1.prems" have "first_free r (Suc n) = Some m" by simp
      with "1.IH"[OF inrange False] show ?thesis by auto
    qed
  qed
qed

lemma acquire_fresh:
  "first_free r port_lo \<noteq> None \<Longrightarrow>
     fst (acquire r) \<notin> r \<and> snd (acquire r) = insert (fst (acquire r)) r"
  by (auto simp: acquire_def dest: first_free_Some split: option.splits)

subsection \<open>Setting hosts and ports\<close>

lemma AF_distinct:
  "AF_INET \<noteq> AF_INET6" "AF_INET6 \<noteq> AF_INET" "AF_INET \<noteq> AF_UNIX" "AF_UNIX \<noteq> AF_INET"
  "AF_INET6 \<noteq> AF_UNIX" "AF_UNIX \<noteq> AF_INET6"
  by (simp_all add: AF_INET_def AF_INET6_def AF_UNIX_def)

lemma with_family_ip:
  "with_family AF_INET = IPv4 0 0" "with_family AF_INET6 = IPv6 0 0"
  by (simp_all add: with_family_def AF_distinct)

lemma ss_family_with_family: "ss_family (with_family d) = d"
  by (simp add: with_family_def)








lemma set_port_loopback:
  "is_loopback b \<Longrightarrow>
     get_port (snd (set_port n b)) = Some n
     \<and> ss_family (snd (set_port n b)) = ss_family b
     \<and> is_loopback (snd (set_port n b))"
  by (cases b) auto

lemma set_host_after_port:
  "fst (set_host b (snd (set_port n t))) \<Longrightarrow>
     snd (set_host b (snd (set_port n t))) = snd (set_port n b) \<and> ss_family t = ss_family b"
  by (cases b; cases t) simp_all

lemma set_random_host_after_port:
  "fst (set_random_host r4 r6 (snd (set_port n t))) \<Longrightarrow>
     snd (set_random_host r4 r6 (snd (set_port n t)))
       = (if ss_family t = AF_INET then IPv4 r4 n else IPv6 r6 n)
     \<and> (ss_family t = AF_INET \<or> ss_family t = AF_INET6)"
  by (cases t) (simp_all add: AF_distinct)

subsection \<open>\<^verbatim>\<open>accept\<close>\<close>








subsection \<open>\<^verbatim>\<open>connect\<close>\<close>

text \<open>
  C5, as the code has it.  Let the socket not be an unbound UDP socket, let the
  formatted path be a valid UNIX path and let \<open>make_unix\<close> succeed.  If \<open>addr\<close> carries
  no port, \<open>connect\<close> returns \<open>-1\<close> with \<^verbatim>\<open>errno\<close> \<^verbatim>\<open>EADDRNOTAVAIL\<close> and makes no call after
  \<open>make_unix\<close>: the real connect is not performed.  If \<open>addr\<close> carries a port, whatever
  its value, the real connect on the formatted path is performed.
\<close>

theorem connect_requires_port:
  assumes "\<not> (type s = UDP \<and> binding s = None)"
      and "unix (format_sockpath s path addr) = Some dest"
      and "make_unix k (- 1) s p = (True, s1, p1)"
  shows "(get_port addr = None \<longrightarrow>
            connect k addr path s p = (- 1, s1, p1\<lparr>errno := EADDRNOTAVAIL\<rparr>)
            \<and> calls (snd (snd (connect k addr path s p))) = calls p1)
       \<and> (get_port addr \<noteq> None \<longrightarrow>
            calls (snd (snd (connect k addr path s p))) = calls p1 @ [Sys_connect (fd s) dest])"
proof -
  have fd1: "fd s1 = fd s"
    using make_unix_cases[OF assms(3)] by auto
  have cond: "(type s = UDP \<and> binding s = None) = False"
    using assms(1) by simp
  have none: "get_port addr = None \<Longrightarrow>
      connect k addr path s p = (- 1, s1, p1\<lparr>errno := EADDRNOTAVAIL\<rparr>)"
    by (simp add: connect_def cond assms(2,3))
  have some: "calls (snd (snd (connect k addr path s p))) = calls p1 @ [Sys_connect (fd s) dest]"
    if "get_port addr = Some q" for q
  proof (cases "create_binding k addr s1")
    case (Pair ok s2)
    then show ?thesis
      using that fd1
      by (cases ok) (simp_all add: connect_def cond assms(2,3) Let_def real_connect_def syscall_def)
  qed
  show ?thesis
    using none some by auto
qed

theorem connect_requires_port_witness:
  "connect kernel_ok (Unspec 0) ''/tmp/svc.sock'' sock_tcp process0
     = (- 1, sock_tcp\<lparr>is_unix := True\<rparr>,
        process0\<lparr>errno := 99, calls := [Sys_socket 1 1 0, Sys_replay 3 7, Sys_dup2 7 3]\<rparr>)
   \<and> calls (snd (snd (connect kernel_ok (IPv4 0x0A000005 8080) ''/tmp/svc.sock'' sock_tcp process0)))
     = [Sys_socket 1 1 0, Sys_replay 3 7, Sys_dup2 7 3, Sys_connect 3 (UNIX ''/tmp/svc.sock'')]"
  using
    connect_requires_port [where s = sock_tcp and path = "''/tmp/svc.sock''" and addr = "Unspec 0"
      and dest = "UNIX ''/tmp/svc.sock''" and k = kernel_ok and p = process0
      and ?s1.0 = "sock_tcp\<lparr>is_unix := True\<rparr>"
      and ?p1.0 = "process0\<lparr>calls := [Sys_socket 1 1 0, Sys_replay 3 7, Sys_dup2 7 3]\<rparr>"]
    connect_requires_port [where s = sock_tcp and path = "''/tmp/svc.sock''"
      and addr = "IPv4 0x0A000005 8080"
      and dest = "UNIX ''/tmp/svc.sock''" and k = kernel_ok and p = process0
      and ?s1.0 = "sock_tcp\<lparr>is_unix := True\<rparr>"
      and ?p1.0 = "process0\<lparr>calls := [Sys_socket 1 1 0, Sys_replay 3 7, Sys_dup2 7 3]\<rparr>"]
  by (simp add: example_defs EADDRNOTAVAIL_def make_unix_def syscall_defs format_sockpath_def
      unix_def sun_path_max_def)

text \<open>
  C5 with a non-zero port required does not hold.  The address 10.0.0.5:0 carries no
  non-zero port; on a TCP socket, with the path formatted and \<open>make_unix\<close> successful,
  \<open>connect\<close> to it performs the real connect and returns the 0 that call returned.
\<close>

theorem connect_port_zero_counterexample:
  "get_port (IPv4 0x0A000005 0) = Some 0
   \<and> type sock_tcp = TCP
   \<and> unix (format_sockpath sock_tcp ''/tmp/svc.sock'' (IPv4 0x0A000005 0))
       = Some (UNIX ''/tmp/svc.sock'')
   \<and> fst (make_unix kernel_ok (- 1) sock_tcp process0)
   \<and> connect kernel_ok (IPv4 0x0A000005 0) ''/tmp/svc.sock'' sock_tcp process0
       = (0,
          sock_tcp\<lparr>is_unix := True, binding := Some (IPv4 4242 32768),
            connection := Some (IPv4 0x0A000005 0), sockpath := Some ''/tmp/svc.sock'',
            ports := {0, 32768}\<rparr>,
          process0\<lparr>calls := [Sys_socket 1 1 0, Sys_replay 3 7, Sys_dup2 7 3,
                               Sys_connect 3 (UNIX ''/tmp/svc.sock'')]\<rparr>)"
  by (simp add: example_defs connect_def make_unix_def syscall_defs format_sockpath_def
      unix_def sun_path_max_def create_binding_def with_family_def acquire_def
      first_free.simps port_lo_def port_hi_def reserve_def drop_bit_eq_div Let_def)

subsection \<open>\<^verbatim>\<open>rewrite_src\<close>\<close>

lemma rewrite_src_keeps:
  "rewrite_src k a s = (r, out, s') \<Longrightarrow>
     binding s' = binding s \<and> (revpeermap s P = Some A \<longrightarrow> revpeermap s' P = Some A)"
  by (auto simp: rewrite_src_def Let_def split: option.splits prod.splits if_splits)

lemma rewrite_src_many_keeps:
  "revpeermap s P = Some A \<Longrightarrow>
     binding (rewrite_src_many cs s) = binding s \<and> revpeermap (rewrite_src_many cs s) P = Some A"
proof (induction cs arbitrary: s)
  case Nil
  then show ?case by simp
next
  case (Cons c cs)
  obtain k a where c: "c = (k, a)" by (cases c) auto
  obtain r out s' where step: "rewrite_src k a s = (r, out, s')"
    by (cases "rewrite_src k a s") auto
  from rewrite_src_keeps[OF step, of P A] Cons.prems
  have "binding s' = binding s" and "revpeermap s' P = Some A" by auto
  with Cons.IH[of s'] show ?case by (simp add: c step)
qed

lemma rewrite_src_found:
  "binding s = Some b \<Longrightarrow> get_sockpath a = Some P \<Longrightarrow> revpeermap s P = Some A \<Longrightarrow>
     rewrite_src k a s = (True, Some A, s)"
  by (simp add: rewrite_src_def)

lemma rewrite_src_records:
  "rewrite_src k a s = (r, Some A, s') \<Longrightarrow> get_sockpath a = Some P \<Longrightarrow>
     binding s' \<noteq> None \<and> revpeermap s' P = Some A"
  by (auto simp: rewrite_src_def Let_def split: option.splits prod.splits if_splits)

lemma rewrite_src_unknown:
  assumes "binding s = Some b" and "get_sockpath a = Some P" and "revpeermap s P = None"
  shows "rewrite_src k a s =
     (if fst (if is_loopback b
              then set_host b (snd (set_port (fst (acquire (ports s))) (with_family (domain s))))
              else set_random_host (k_random4 k) (k_random6 k)
                     (snd (set_port (fst (acquire (ports s))) (with_family (domain s)))))
      then (True, Some (rewrite_src_peer k s b),
               s\<lparr>ports := snd (acquire (ports s)),
                 peermap := (peermap s)(rewrite_src_peer k s b \<mapsto> P),
                 revpeermap := (revpeermap s)(P \<mapsto> rewrite_src_peer k s b)\<rparr>)
      else (False, None, s\<lparr>ports := snd (acquire (ports s))\<rparr>))"
  using assms
  by (simp add: rewrite_src_def rewrite_src_peer_def Let_def split_beta)

lemma rewrite_src_peer_ok:
  assumes "domain s = AF_INET \<or> domain s = AF_INET6"
      and "is_loopback b \<longrightarrow> ss_family b = domain s"
  shows "fst (if is_loopback b
              then set_host b (snd (set_port n (with_family (domain s))))
              else set_random_host r4 r6 (snd (set_port n (with_family (domain s)))))
       \<and> snd (if is_loopback b
              then set_host b (snd (set_port n (with_family (domain s))))
              else set_random_host r4 r6 (snd (set_port n (with_family (domain s)))))
          = (if is_loopback b then snd (set_port n b)
             else if domain s = AF_INET then IPv4 r4 n else IPv6 r6 n)"
proof (cases "domain s = AF_INET")
  case True
  with assms(2) show ?thesis
    by (cases b) (simp_all add: AF_distinct with_family_ip)
next
  case False
  with assms(1) have d6: "domain s = AF_INET6" by simp
  with assms(2) show ?thesis
    by (cases b) (simp_all add: AF_distinct with_family_ip)
qed

text \<open>
  C8.  Let the socket have a binding \<open>b\<close> and let the source address carry the UNIX path
  \<open>P\<close>.  A call for a path that \<open>revpeermap\<close> does not know, whenever it returns an
  address, and in particular whenever the socket's domain is \<^verbatim>\<open>AF_INET\<close> or \<^verbatim>\<open>AF_INET6\<close>
  (and that of the binding if the binding is loopback), returns a new peer and records
  it in \<open>peermap\<close> and \<open>revpeermap\<close>: the peer has the host of the binding if that is
  loopback and a random host otherwise, and the port acquired from the pool, which was
  not reserved before unless the pool is exhausted.  Once a call for \<open>P\<close> has returned
  an address \<open>A\<close>, every later call for \<open>P\<close> returns \<open>A\<close> and changes nothing, whatever
  other \<^verbatim>\<open>rewrite_src\<close> calls were made in between.
\<close>

theorem rewrite_src_stable:
  assumes "binding s = Some b" and "get_sockpath a = Some P"
  shows "(revpeermap s P = None
            \<and> (fst (snd (rewrite_src k a s)) \<noteq> None
               \<or> (domain s = AF_INET \<or> domain s = AF_INET6)
                 \<and> (is_loopback b \<longrightarrow> ss_family b = domain s)) \<longrightarrow>
            rewrite_src k a s =
              (True, Some (rewrite_src_peer k s b),
               s\<lparr>ports := snd (acquire (ports s)),
                 peermap := (peermap s)(rewrite_src_peer k s b \<mapsto> P),
                 revpeermap := (revpeermap s)(P \<mapsto> rewrite_src_peer k s b)\<rparr>)
            \<and> ss_family (rewrite_src_peer k s b) = domain s
            \<and> get_port (rewrite_src_peer k s b) = Some (fst (acquire (ports s)))
            \<and> (is_loopback b \<longrightarrow>
                  is_loopback (rewrite_src_peer k s b)
                  \<and> rewrite_src_peer k s b = snd (set_port (fst (acquire (ports s))) b))
            \<and> (\<not> is_loopback b \<longrightarrow>
                  rewrite_src_peer k s b =
                    (if domain s = AF_INET then IPv4 (k_random4 k) (fst (acquire (ports s)))
                     else IPv6 (k_random6 k) (fst (acquire (ports s)))))
            \<and> (first_free (ports s) port_lo \<noteq> None \<longrightarrow> fst (acquire (ports s)) \<notin> ports s))
       \<and> (rewrite_src k a s = (r, Some A, s') \<and> get_sockpath a' = Some P \<longrightarrow>
            rewrite_src k' a' (rewrite_src_many cs s')
              = (True, Some A, rewrite_src_many cs s'))"
proof (rule conjI; rule impI)
  assume h: "revpeermap s P = None
            \<and> (fst (snd (rewrite_src k a s)) \<noteq> None
               \<or> (domain s = AF_INET \<or> domain s = AF_INET6)
                 \<and> (is_loopback b \<longrightarrow> ss_family b = domain s))"
  let ?n = "fst (acquire (ports s))"
  let ?t = "snd (set_port ?n (with_family (domain s)))"
  let ?res = "if is_loopback b then set_host b ?t
              else set_random_host (k_random4 k) (k_random6 k) ?t"
  from h have h1: "revpeermap s P = None" by simp
  note form = rewrite_src_unknown[OF assms h1, of k]
  have ok: "fst ?res"
  proof (rule ccontr)
    assume no: "\<not> fst ?res"
    with form have "fst (snd (rewrite_src k a s)) = None" by simp
    with h have wf: "domain s = AF_INET \<or> domain s = AF_INET6"
      and lf: "is_loopback b \<longrightarrow> ss_family b = domain s" by simp_all
    from rewrite_src_peer_ok[OF wf lf, of ?n "k_random4 k" "k_random6 k"] no
    show False by simp
  qed
  have run: "rewrite_src k a s =
              (True, Some (rewrite_src_peer k s b),
               s\<lparr>ports := snd (acquire (ports s)),
                 peermap := (peermap s)(rewrite_src_peer k s b \<mapsto> P),
                 revpeermap := (revpeermap s)(P \<mapsto> rewrite_src_peer k s b)\<rparr>)"
    using ok by (simp add: form)
  have peer: "rewrite_src_peer k s b =
      (if is_loopback b then snd (set_port ?n b)
       else if domain s = AF_INET then IPv4 (k_random4 k) ?n else IPv6 (k_random6 k) ?n)
      \<and> ss_family (rewrite_src_peer k s b) = domain s"
  proof (cases "is_loopback b")
    case True
    with ok have "fst (set_host b ?t)" by simp
    from set_host_after_port[OF this]
    have e1: "snd (set_host b ?t) = snd (set_port ?n b)"
      and e2: "ss_family (with_family (domain s)) = ss_family b" by blast+
    have p1: "rewrite_src_peer k s b = snd (set_port ?n b)"
      by (simp add: rewrite_src_peer_def True e1)
    have p2: "ss_family (snd (set_port ?n b)) = domain s"
      using set_port_loopback[OF True, of ?n] e2 by (simp add: ss_family_with_family)
    show ?thesis using True p2 by (simp add: p1)
  next
    case False
    with ok have "fst (set_random_host (k_random4 k) (k_random6 k) ?t)" by simp
    from set_random_host_after_port[OF this]
    have e1: "snd (set_random_host (k_random4 k) (k_random6 k) ?t)
        = (if domain s = AF_INET then IPv4 (k_random4 k) ?n else IPv6 (k_random6 k) ?n)"
      and e2: "domain s = AF_INET \<or> domain s = AF_INET6"
      by (simp_all add: ss_family_with_family)
    have p1: "rewrite_src_peer k s b
        = (if domain s = AF_INET then IPv4 (k_random4 k) ?n else IPv6 (k_random6 k) ?n)"
      by (simp add: rewrite_src_peer_def False e1)
    show ?thesis using False e2 by (auto simp: p1 AF_distinct)
  qed
  note peq = conjunct1[OF peer]
  have fam: "ss_family (rewrite_src_peer k s b) = domain s"
    by (rule conjunct2[OF peer])
  have port: "get_port (rewrite_src_peer k s b) = Some ?n"
    using set_port_loopback[of b ?n] by (cases "is_loopback b") (simp_all add: peq)
  have lo: "is_loopback b \<longrightarrow> is_loopback (rewrite_src_peer k s b)
                  \<and> rewrite_src_peer k s b = snd (set_port ?n b)"
    using set_port_loopback[of b ?n] by (simp add: peq)
  have nlo: "\<not> is_loopback b \<longrightarrow> rewrite_src_peer k s b =
                    (if domain s = AF_INET then IPv4 (k_random4 k) ?n else IPv6 (k_random6 k) ?n)"
    by (simp add: peq)
  have fresh: "first_free (ports s) port_lo \<noteq> None \<longrightarrow> ?n \<notin> ports s"
    using acquire_fresh[of "ports s"] by simp
  show "rewrite_src k a s =
              (True, Some (rewrite_src_peer k s b),
               s\<lparr>ports := snd (acquire (ports s)),
                 peermap := (peermap s)(rewrite_src_peer k s b \<mapsto> P),
                 revpeermap := (revpeermap s)(P \<mapsto> rewrite_src_peer k s b)\<rparr>)
            \<and> ss_family (rewrite_src_peer k s b) = domain s
            \<and> get_port (rewrite_src_peer k s b) = Some (fst (acquire (ports s)))
            \<and> (is_loopback b \<longrightarrow>
                  is_loopback (rewrite_src_peer k s b)
                  \<and> rewrite_src_peer k s b = snd (set_port (fst (acquire (ports s))) b))
            \<and> (\<not> is_loopback b \<longrightarrow>
                  rewrite_src_peer k s b =
                    (if domain s = AF_INET then IPv4 (k_random4 k) (fst (acquire (ports s)))
                     else IPv6 (k_random6 k) (fst (acquire (ports s)))))
            \<and> (first_free (ports s) port_lo \<noteq> None \<longrightarrow> fst (acquire (ports s)) \<notin> ports s)"
    by (intro conjI run fam port lo nlo fresh)
next
  assume h: "rewrite_src k a s = (r, Some A, s') \<and> get_sockpath a' = Some P"
  from rewrite_src_records[of k a s r A s' P] h assms
  have b': "binding s' \<noteq> None" and rec: "revpeermap s' P = Some A" by auto
  from rewrite_src_many_keeps[OF rec, of cs] b'
  obtain b2 where "binding (rewrite_src_many cs s') = Some b2"
    and "revpeermap (rewrite_src_many cs s') P = Some A" by auto
  with h show "rewrite_src k' a' (rewrite_src_many cs s')
              = (True, Some A, rewrite_src_many cs s')"
    by (simp add: rewrite_src_found)
qed

lemma acq1: "acquire {32768} = (32769, {32769, 32768})"
  by (simp add: acquire_def first_free.simps port_lo_def port_hi_def)

lemma acq2: "acquire {8080} = (32768, {32768, 8080})"
  by (simp add: acquire_def first_free.simps port_lo_def port_hi_def)

lemma lo1: "is_loopback (IPv4 0x7F000001 32768)"
  by (simp add: drop_bit_eq_div)

lemma lo2: "\<not> is_loopback (IPv4 0 8080)"
  by (simp add: drop_bit_eq_div)

lemma peer1: "rewrite_src_peer kernel_ok
      (sock_udp\<lparr>binding := Some (IPv4 0x7F000001 32768), ports := {32768}\<rparr>) (IPv4 0x7F000001 32768)
    = IPv4 0x7F000001 32769"
  by (simp add: rewrite_src_peer_def acq1 lo1 sock_udp_def new_Socket_def with_family_ip)

lemma peer2: "rewrite_src_peer kernel_ok
      (sock_udp\<lparr>binding := Some (IPv4 0 8080), ports := {8080}\<rparr>) (IPv4 0 8080)
    = IPv4 0x0A2A2A2A 32768"
  by (simp add: rewrite_src_peer_def acq2 lo2 sock_udp_def new_Socket_def kernel_ok_def
      with_family_ip)


lemma first2: "rewrite_src kernel_ok (UNIX ''/tmp/peer'')
      (sock_udp\<lparr>binding := Some (IPv4 0 8080), ports := {8080}\<rparr>)
     = (True, Some (IPv4 0x0A2A2A2A 32768),
        sock_udp\<lparr>binding := Some (IPv4 0 8080), ports := {32768, 8080},
          peermap := [IPv4 0x0A2A2A2A 32768 \<mapsto> ''/tmp/peer''],
          revpeermap := [''/tmp/peer'' \<mapsto> IPv4 0x0A2A2A2A 32768]\<rparr>)"
  by (simp add: rewrite_src_def acq2 lo2 sock_udp_def new_Socket_def kernel_ok_def Let_def
      with_family_def AF_INET_def AF_INET6_def)


lemma sock_udp_fields:
  "peermap sock_udp = Map.empty" "revpeermap sock_udp = Map.empty" "domain sock_udp = AF_INET"
  by (simp_all add: sock_udp_def new_Socket_def)

theorem rewrite_src_stable_witness:
  "rewrite_src kernel_ok (UNIX ''/tmp/peer'')
      (sock_udp\<lparr>binding := Some (IPv4 0x7F000001 32768), ports := {32768}\<rparr>)
     = (True, Some (IPv4 0x7F000001 32769),
        sock_udp\<lparr>binding := Some (IPv4 0x7F000001 32768), ports := {32769, 32768},
          peermap := [IPv4 0x7F000001 32769 \<mapsto> ''/tmp/peer''],
          revpeermap := [''/tmp/peer'' \<mapsto> IPv4 0x7F000001 32769]\<rparr>)
   \<and> rewrite_src (kernel_ok\<lparr>k_random4 := 0x0B0B0B0B\<rparr>) (UNIX ''/tmp/peer'')
        (rewrite_src_many [(kernel_ok, UNIX ''/tmp/other''), (kernel_ok, UNIX ''/tmp/peer'')]
          (sock_udp\<lparr>binding := Some (IPv4 0 8080), ports := {32768, 8080},
            peermap := [IPv4 0x0A2A2A2A 32768 \<mapsto> ''/tmp/peer''],
            revpeermap := [''/tmp/peer'' \<mapsto> IPv4 0x0A2A2A2A 32768]\<rparr>))
     = (True, Some (IPv4 0x0A2A2A2A 32768),
        rewrite_src_many [(kernel_ok, UNIX ''/tmp/other''), (kernel_ok, UNIX ''/tmp/peer'')]
          (sock_udp\<lparr>binding := Some (IPv4 0 8080), ports := {32768, 8080},
            peermap := [IPv4 0x0A2A2A2A 32768 \<mapsto> ''/tmp/peer''],
            revpeermap := [''/tmp/peer'' \<mapsto> IPv4 0x0A2A2A2A 32768]\<rparr>))"
proof (rule conjI)
  let ?s = "sock_udp\<lparr>binding := Some (IPv4 0x7F000001 32768), ports := {32768}\<rparr>"
  have b: "binding ?s = Some (IPv4 0x7F000001 32768)" by simp
  have g: "get_sockpath (UNIX ''/tmp/peer'') = Some ''/tmp/peer''" by simp
  have h: "revpeermap ?s ''/tmp/peer'' = None
            \<and> (fst (snd (rewrite_src kernel_ok (UNIX ''/tmp/peer'') ?s)) \<noteq> None
               \<or> (domain ?s = AF_INET \<or> domain ?s = AF_INET6)
                 \<and> (is_loopback (IPv4 0x7F000001 32768) \<longrightarrow>
                      ss_family (IPv4 0x7F000001 32768) = domain ?s))"
    by (simp add: sock_udp_fields)
  from rewrite_src_stable[OF b g, where k = kernel_ok, THEN conjunct1, THEN mp, OF h,
      THEN conjunct1]
  show "rewrite_src kernel_ok (UNIX ''/tmp/peer'') ?s
     = (True, Some (IPv4 0x7F000001 32769),
        sock_udp\<lparr>binding := Some (IPv4 0x7F000001 32768), ports := {32769, 32768},
          peermap := [IPv4 0x7F000001 32769 \<mapsto> ''/tmp/peer''],
          revpeermap := [''/tmp/peer'' \<mapsto> IPv4 0x7F000001 32769]\<rparr>)"
    by (simp add: peer1 acq1 sock_udp_fields)
next
  let ?s = "sock_udp\<lparr>binding := Some (IPv4 0 8080), ports := {8080}\<rparr>"
  have b: "binding ?s = Some (IPv4 0 8080)" by simp
  have g: "get_sockpath (UNIX ''/tmp/peer'') = Some ''/tmp/peer''" by simp
  show "rewrite_src (kernel_ok\<lparr>k_random4 := 0x0B0B0B0B\<rparr>) (UNIX ''/tmp/peer'')
        (rewrite_src_many [(kernel_ok, UNIX ''/tmp/other''), (kernel_ok, UNIX ''/tmp/peer'')]
          (sock_udp\<lparr>binding := Some (IPv4 0 8080), ports := {32768, 8080},
            peermap := [IPv4 0x0A2A2A2A 32768 \<mapsto> ''/tmp/peer''],
            revpeermap := [''/tmp/peer'' \<mapsto> IPv4 0x0A2A2A2A 32768]\<rparr>))
     = (True, Some (IPv4 0x0A2A2A2A 32768),
        rewrite_src_many [(kernel_ok, UNIX ''/tmp/other''), (kernel_ok, UNIX ''/tmp/peer'')]
          (sock_udp\<lparr>binding := Some (IPv4 0 8080), ports := {32768, 8080},
            peermap := [IPv4 0x0A2A2A2A 32768 \<mapsto> ''/tmp/peer''],
            revpeermap := [''/tmp/peer'' \<mapsto> IPv4 0x0A2A2A2A 32768]\<rparr>))"
    by (rule rewrite_src_stable[OF b g, THEN conjunct2, THEN mp]) (rule conjI[OF first2 g])
qed

subsection \<open>The path registry after \<^verbatim>\<open>bind\<close> and \<^verbatim>\<open>connect\<close>\<close>

text \<open>
  C4.  A TCP socket is created on descriptor 3, bound to 127.0.0.1:8080 with the path
  \<^verbatim>\<open>/tmp/a.sock\<close> and then connected to 127.0.0.1:9090 with the path \<^verbatim>\<open>/tmp/b.sock\<close>; every
  system call succeeds.  After the \<open>bind\<close> the socket's \<open>sockpath\<close> is in the path
  registry.  After the \<open>connect\<close> the socket is still bound, not a blackhole and not
  closed, but its \<open>sockpath\<close> is \<^verbatim>\<open>/tmp/b.sock\<close>, which is not in the path registry.  The
  \<open>close\<close> that follows unlinks \<^verbatim>\<open>/tmp/b.sock\<close>, the path of the peer, and leaves
  \<^verbatim>\<open>/tmp/a.sock\<close> in the path registry.
\<close>

theorem connect_after_bind_replaces_sockpath:
  "(case create 3 AF_INET SOCK_STREAM 0 process0 of (s0, p0) \<Rightarrow>
    case bind kernel_ok (IPv4 0x7F000001 8080) ''/tmp/a.sock'' s0 p0 of (r1, s1, p1) \<Rightarrow>
    case connect kernel_ok (IPv4 0x7F000001 9090) ''/tmp/b.sock'' s1 p1 of (r2, s2, p2) \<Rightarrow>
    case close kernel_ok s2 p2 of (r3, s3, p3) \<Rightarrow>
      r1 = 0 \<and> r2 = 0 \<and> r3 = 0
      \<and> bound s1 \<and> \<not> is_blackhole s1 \<and> sockpath s1 = Some ''/tmp/a.sock''
      \<and> sockpath_registry p1 = {''/tmp/a.sock''}
      \<and> bound s2 \<and> \<not> is_blackhole s2 \<and> sockpath s2 = Some ''/tmp/b.sock''
      \<and> sockpath_registry p2 = {''/tmp/a.sock''}
      \<and> ''/tmp/b.sock'' \<notin> sockpath_registry p2
      \<and> calls p2 = [Sys_socket 1 1 0, Sys_replay 3 7, Sys_dup2 7 3,
                     Sys_bind 3 (UNIX ''/tmp/a.sock''), Sys_connect 3 (UNIX ''/tmp/b.sock'')]
      \<and> calls p3 = calls p2 @ [Sys_close 3, Sys_unlink ''/tmp/b.sock'']
      \<and> sockpath_registry p3 = {''/tmp/a.sock''})"
  by (simp add: example_defs create_def bind_def connect_def close_def make_unix_def
      syscall_defs format_sockpath_def unix_def sun_path_max_def bind_finish_def copy_def
      has_sockpath_def reserve_def Let_def)

text \<open>The same on a UDP socket that binds and then connects.\<close>

lemma connect_after_bind_udp:
  "(case create 3 AF_INET SOCK_DGRAM 0 process0 of (s0, p0) \<Rightarrow>
    case bind kernel_ok (IPv4 0x7F000001 5353) ''/tmp/a.sock'' s0 p0 of (r1, s1, p1) \<Rightarrow>
    case connect kernel_ok (IPv4 0x7F000001 53) ''/tmp/b.sock'' s1 p1 of (r2, s2, p2) \<Rightarrow>
      r1 = 0 \<and> r2 = 0 \<and> type s2 = UDP
      \<and> bound s2 \<and> \<not> is_blackhole s2 \<and> sockpath s2 = Some ''/tmp/b.sock''
      \<and> sockpath_registry p2 = {''/tmp/a.sock''})"
  by (simp add: example_defs create_def bind_def connect_def make_unix_def
      syscall_defs format_sockpath_def unix_def sun_path_max_def bind_finish_def copy_def
      has_sockpath_def reserve_def Let_def)

end
